theory Spec2Isabelle
  imports
    Complex_Main
    "HOL-Library.Sublist"
    "HOL-Library.Multiset"
    "HOL-Library.Char_ord"
    "HOL-Library.List_Lexorder"
    "HOL-Library.Option_ord"
    "HOL-Library.Product_Lexorder"
begin

section \<open>Mirror selection and configuration of the installer\<close>

text \<open>
  A shallow embedding of \<^verbatim>\<open>archinstall/lib/models/mirrors.py\<close> (the mirror data
  model and the configuration aggregate) and of the class \<^verbatim>\<open>MirrorListHandler\<close> of
  \<^verbatim>\<open>archinstall/lib/mirrors.py\<close> (the loader).

  Conventions. A Python \<^verbatim>\<open>str\<close> is a \<open>string\<close>; a \<open>char\<close> stands for the code
  point of the same number, so the model covers the code points below 256. A Python
  \<^verbatim>\<open>int\<close> is an \<open>int\<close>, a \<^verbatim>\<open>float\<close> a \<open>real\<close> (no rounding, no NaN). A
  \<^verbatim>\<open>dict\<close> is an association list in insertion order whose keys are distinct. An
  exception is a value \<open>Inl e\<close> of a sum type, the result of a normal return is
  \<open>Inr x\<close>. Network, file system and clock are parameters: each function that talks
  to them takes the outcomes it will see and returns the events it caused.
\<close>

subsection \<open>Exceptions\<close>

text \<open>
  pydantic's \<^verbatim>\<open>ValidationError\<close> is a subclass of \<^verbatim>\<open>ValueError\<close>, and a
  \<^verbatim>\<open>ValueError\<close> raised inside a validator surfaces as one; both are \<open>ValueError\<close>
  here. Any other exception raised inside a validator leaves the validation as it is.
  \<open>OSError\<close> stands for whatever opening or reading a file and fetching a URL
  raise.
\<close>

datatype error = KeyError | TypeError | ValueError | AttributeError | AssertionError | OSError

text \<open>
  A loop that builds a list from the items of another and raises where building one
  of them raises.
\<close>

fun traverse :: "('a \<Rightarrow> error + 'b) \<Rightarrow> 'a list \<Rightarrow> error + 'b list" where
  "traverse f [] = Inr []"
| "traverse f (x # xs) =
     (case f x of
        Inl err \<Rightarrow> Inl err
      | Inr y \<Rightarrow> (case traverse f xs of Inl err \<Rightarrow> Inl err | Inr ys \<Rightarrow> Inr (y # ys)))"

subsection \<open>The string operations the code calls\<close>

text \<open>\<^verbatim>\<open>str.isspace\<close> on one character, for the code points below 256.\<close>

definition isspace :: "char \<Rightarrow> bool" where
  "isspace c = (of_char c \<in> {9, 10, 11, 12, 13, 28, 29, 30, 31, 32, 133, 160 :: nat})"

text \<open>\<^verbatim>\<open>str.strip()\<close> with no argument: whitespace goes from both ends.\<close>

definition lstrip :: "string \<Rightarrow> string" where
  "lstrip s = dropWhile isspace s"

definition rstrip :: "string \<Rightarrow> string" where
  "rstrip s = rev (dropWhile isspace (rev s))"

definition strip :: "string \<Rightarrow> string" where
  "strip s = rstrip (lstrip s)"

text \<open>\<^verbatim>\<open>s.startswith(p)\<close>, \<^verbatim>\<open>s.removeprefix(p)\<close>, \<^verbatim>\<open>s.removesuffix(p)\<close>.\<close>

definition startswith :: "string \<Rightarrow> string \<Rightarrow> bool" where
  "startswith s p = prefix p s"

definition removeprefix :: "string \<Rightarrow> string \<Rightarrow> string" where
  "removeprefix s p = (if prefix p s then drop (length p) s else s)"

definition removesuffix :: "string \<Rightarrow> string \<Rightarrow> string" where
  "removesuffix s p = (if p \<noteq> [] \<and> suffix p s then take (length s - length p) s else s)"

text \<open>
  \<^verbatim>\<open>s.replace(old, new)\<close>: every occurrence of \<open>old\<close>, found from the left and not
  overlapping, becomes \<open>new\<close>. With an empty \<open>old\<close>, \<open>new\<close> goes before every
  character and at the end.
\<close>

function replace :: "string \<Rightarrow> string \<Rightarrow> string \<Rightarrow> string" where
  "replace [] new s = new @ concat (map (\<lambda>c. c # new) s)"
| "replace (x # old) new [] = []"
| "replace (x # old) new (c # cs) =
     (if prefix (x # old) (c # cs) then new @ replace (x # old) new (drop (length old) cs)
      else c # replace (x # old) new cs)"
  by pat_completeness auto
termination
  by (relation "measure (\<lambda>(old, new, s). length s)") auto

text \<open>
  \<^verbatim>\<open>str.splitlines()\<close>: the text is cut at every line boundary (LF, VT, FF, CR, FS, GS,
  RS, NEL, and CR LF as one), the boundaries are dropped, and a boundary at the very end
  opens no empty last line. \<open>splitlines_from acc s\<close> has read \<open>acc\<close> of the current
  line.
\<close>

definition is_linebreak :: "char \<Rightarrow> bool" where
  "is_linebreak c = (of_char c \<in> {10, 11, 12, 13, 28, 29, 30, 133 :: nat})"

fun splitlines_from :: "string \<Rightarrow> string \<Rightarrow> string list" where
  "splitlines_from acc [] = (if acc = [] then [] else [acc])"
| "splitlines_from acc [c] = (if is_linebreak c then [acc] else [acc @ [c]])"
| "splitlines_from acc (c # d # cs) =
     (if of_char c = (13 :: nat) \<and> of_char d = (10 :: nat) then acc # splitlines_from [] cs
      else if is_linebreak c then acc # splitlines_from [] (d # cs)
      else splitlines_from (acc @ [c]) (d # cs))"

definition splitlines :: "string \<Rightarrow> string list" where
  "splitlines s = splitlines_from [] s"

text \<open>\<^verbatim>\<open>sep.join(xs)\<close>.\<close>

fun join :: "string \<Rightarrow> string list \<Rightarrow> string" where
  "join sep [] = []"
| "join sep [x] = x"
| "join sep (x # y # ys) = x @ sep @ join sep (y # ys)"

text \<open>\<^verbatim>\<open>str(n)\<close> for an integer: decimal digits, a minus sign when negative.\<close>

definition digit_char :: "nat \<Rightarrow> char" where
  "digit_char d = char_of (48 + d)"

fun str_nat :: "nat \<Rightarrow> string" where
  "str_nat n = (if n < 10 then [digit_char n] else str_nat (n div 10) @ [digit_char (n mod 10)])"

declare str_nat.simps [simp del]

definition str_int :: "int \<Rightarrow> string" where
  "str_int i = (if i < 0 then CHR ''-'' # str_nat (nat (- i)) else str_nat (nat i))"

subsection \<open>\<^verbatim>\<open>urllib.parse.urlparse\<close> and \<^verbatim>\<open>int()\<close>\<close>

text \<open>
  Of the result of \<^verbatim>\<open>urlparse\<close> the code reads the scheme and the network location.
  The library strips leading control characters and spaces, drops every tab, CR and LF,
  takes as scheme the text before the first colon when it starts with an ASCII letter
  and consists of letters, digits, \<open>+\<close>, \<open>-\<close> and \<open>.\<close> (in lower case), and takes as
  network location what stands between a leading \<open>//\<close> and the next \<open>/\<close>, \<open>?\<close> or
  \<open>#\<close>. A network location with a square bracket is an IP literal: the library
  raises \<^verbatim>\<open>ValueError\<close> unless the brackets hold an address it accepts, and then the text
  after the first colon holds a bracket and \<^verbatim>\<open>int()\<close> raises in \<open>debug_output\<close> below;
  here every bracket raises (the \<open>IPvFuture\<close> form, which the library may accept, is
  the one case this leaves out).
\<close>

definition is_ascii_alpha :: "char \<Rightarrow> bool" where
  "is_ascii_alpha c = (let n = (of_char c :: nat) in (65 \<le> n \<and> n \<le> 90) \<or> (97 \<le> n \<and> n \<le> 122))"

definition is_digit :: "char \<Rightarrow> bool" where
  "is_digit c = (let n = (of_char c :: nat) in 48 \<le> n \<and> n \<le> 57)"

definition is_scheme_char :: "char \<Rightarrow> bool" where
  "is_scheme_char c = (is_ascii_alpha c \<or> is_digit c \<or> c \<in> set ''+-.'')"

definition ascii_lower :: "char \<Rightarrow> char" where
  "ascii_lower c = (let n = (of_char c :: nat) in if 65 \<le> n \<and> n \<le> 90 then char_of (n + 32) else c)"

record url_parts =
  scheme :: string
  netloc :: string

definition urlparse :: "string \<Rightarrow> error + url_parts" where
  "urlparse url0 =
     (let url1 = filter (\<lambda>c. of_char c \<notin> {9, 10, 13 :: nat})
                   (dropWhile (\<lambda>c. of_char c \<le> (32 :: nat)) url0);
          s = takeWhile (\<lambda>c. c \<noteq> CHR '':'') url1;
          has_scheme = (length s < length url1 \<and> list_all is_scheme_char s \<and>
                        (case s of [] \<Rightarrow> False | c # _ \<Rightarrow> is_ascii_alpha c));
          url2 = (if has_scheme then drop (Suc (length s)) url1 else url1);
          loc = (if prefix ''//'' url2
                 then takeWhile (\<lambda>c. c \<notin> set ''/?#'') (drop 2 url2) else [])
      in if CHR ''['' \<in> set loc \<or> CHR '']'' \<in> set loc then Inl ValueError
         else Inr \<lparr>scheme = (if has_scheme then map ascii_lower s else []), netloc = loc\<rparr>)"

text \<open>
  \<^verbatim>\<open>int(s)\<close> on a string, base ten: whitespace around, an optional sign, then digits,
  with single underscores allowed between digits; anything else, and more than 4300
  digits, raises \<^verbatim>\<open>ValueError\<close>.
\<close>

definition is_int_space :: "char \<Rightarrow> bool" where
  "is_int_space c = (of_char c \<in> {9, 10, 11, 12, 13, 32, 133, 160 :: nat})"

fun underscores_apart :: "string \<Rightarrow> bool" where
  "underscores_apart (c # d # cs) =
     (\<not> (c = CHR ''_'' \<and> d = CHR ''_'') \<and> underscores_apart (d # cs))"
| "underscores_apart cs = True"

definition digits_value :: "string \<Rightarrow> nat" where
  "digits_value ds = foldl (\<lambda>a c. 10 * a + (of_char c - 48)) 0 ds"

definition py_int :: "string \<Rightarrow> error + int" where
  "py_int s =
     (let t = dropWhile is_int_space s;
          negative = (case t of [] \<Rightarrow> False | c # _ \<Rightarrow> c = CHR ''-'');
          u = (case t of [] \<Rightarrow> [] | c # r \<Rightarrow> if c = CHR ''-'' \<or> c = CHR ''+'' then r else t);
          body = takeWhile (\<lambda>c. is_digit c \<or> c = CHR ''_'') u;
          rest = dropWhile (\<lambda>c. is_digit c \<or> c = CHR ''_'') u;
          ds = filter is_digit body
      in if body \<noteq> [] \<and> is_digit (hd body) \<and> is_digit (last body) \<and> underscores_apart body \<and>
            list_all is_int_space rest \<and> length ds \<le> 4300
         then Inr (if negative then - int (digits_value ds) else int (digits_value ds))
         else Inl ValueError)"

subsection \<open>The mirror entry\<close>

text \<open>
  \<^verbatim>\<open>MirrorStatusEntryV3\<close>. The fields are the class's; its private attributes
  \<^verbatim>\<open>_latency\<close>, \<^verbatim>\<open>_speed\<close>, \<^verbatim>\<open>_hostname\<close>, \<^verbatim>\<open>_port\<close> and
  \<^verbatim>\<open>_speedtest_retries\<close> carry the prefix \<open>priv\<close>. A timestamp is the text the feed
  gives.
\<close>

type_synonym datetime = string

record MirrorStatusEntryV3 =
  url :: string
  protocol :: string
  active :: bool
  country :: string
  country_code :: string
  isos :: bool
  ipv4 :: bool
  ipv6 :: bool
  details :: string
  delay :: "int option"
  last_sync :: "datetime option"
  duration_avg :: "real option"
  duration_stddev :: "real option"
  completion_pct :: "real option"
  score :: "real option"
  priv_latency :: "real option"
  priv_speed :: "real option"
  priv_hostname :: "string option"
  priv_port :: "int option"
  priv_speedtest_retries :: "int option"

definition server_url :: "MirrorStatusEntryV3 \<Rightarrow> string" where
  "server_url e = url e @ ''$repo/os/$arch''"

text \<open>
  \<^verbatim>\<open>validate_score\<close> rounds a score that is there. Python's \<^verbatim>\<open>round\<close> with one
  argument gives the nearest integer, and of two nearest the even one (\<open>py_round\<close>).

  The method is declared with \<^verbatim>\<open>@classmethod\<close> above \<^verbatim>\<open>@field_validator\<close>, the
  reverse of the order on \<^verbatim>\<open>check_model\<close>: the attribute of the class is then a
  \<^verbatim>\<open>classmethod\<close> object and not the marker the validation library collects, so the
  method is not registered as a validator and the construction of an entry does not
  call it. The field \<open>score\<close> of an entry is the number the feed gives.
\<close>

definition py_round :: "real \<Rightarrow> int" where
  "py_round x =
     (let n = \<lfloor>x\<rfloor>; d = x - of_int n
      in if d < 1 / 2 then n else if 1 / 2 < d then n + 1 else if even n then n else n + 1)"

definition validate_score :: "real option \<Rightarrow> real option" where
  "validate_score v = (case v of None \<Rightarrow> None | Some x \<Rightarrow> Some (of_int (py_round x)))"

text \<open>
  The validator \<^verbatim>\<open>debug_output\<close> runs after the fields of a new entry are set: the
  network location of the url is split at its first colon into host name and port text,
  and the port text goes through \<^verbatim>\<open>int()\<close>. What \<^verbatim>\<open>urlparse\<close> or \<^verbatim>\<open>int()\<close> raise
  is raised by the construction of the entry.
\<close>

definition split_host_port :: "string \<Rightarrow> string \<times> string option" where
  "split_host_port loc =
     (let h = takeWhile (\<lambda>c. c \<noteq> CHR '':'') loc
      in if length h < length loc then (h, Some (drop (Suc (length h)) loc)) else (h, None))"

definition debug_output :: "MirrorStatusEntryV3 \<Rightarrow> error + MirrorStatusEntryV3" where
  "debug_output e =
     (case urlparse (url e) of
        Inl err \<Rightarrow> Inl err
      | Inr parts \<Rightarrow>
          (case split_host_port (netloc parts) of
             (h, None) \<Rightarrow> Inr (e\<lparr>priv_hostname := Some h, priv_port := None\<rparr>)
           | (h, Some p) \<Rightarrow>
               (case py_int p of
                  Inl err \<Rightarrow> Inl err
                | Inr n \<Rightarrow> Inr (e\<lparr>priv_hostname := Some h, priv_port := Some n\<rparr>))))"

text \<open>
  Construction of an entry from its fields: the private attributes start unset, then
  the validator runs.
\<close>

definition new_entry :: "MirrorStatusEntryV3 \<Rightarrow> error + MirrorStatusEntryV3" where
  "new_entry e =
     debug_output (e\<lparr>priv_latency := None, priv_speed := None, priv_hostname := None,
                          priv_port := None, priv_speedtest_retries := None\<rparr>)"

subsection \<open>The speed probe\<close>

text \<open>
  One pass of the \<^verbatim>\<open>try\<close> statement of the property \<^verbatim>\<open>speed\<close> ends in one of these
  ways: the download returned \<open>n\<close> bytes and the timer read \<open>time\<close> (or nothing),
  or it raised \<^verbatim>\<open>URLError\<close>, \<^verbatim>\<open>IncompleteRead\<close>, \<^verbatim>\<open>ConnectionResetError\<close> or any
  other exception.
\<close>

datatype download =
    Downloaded nat "real option"
  | URLError
  | IncompleteRead
  | ConnectionResetError
  | OtherException

text \<open>
  \<open>after_attempt d\<close> is \<^verbatim>\<open>_speed\<close> after a pass that ended as \<open>d\<close>, \<open>None\<close> when it
  is still unset. A timer that read nothing fails the \<^verbatim>\<open>assert\<close>, a timer that read
  zero fails the division: both land in the catch-all clause.
\<close>

definition after_attempt :: "download \<Rightarrow> real option" where
  "after_attempt d =
     (case d of
        Downloaded n t \<Rightarrow>
          (case t of None \<Rightarrow> Some 0 | Some time \<Rightarrow> if time = 0 then Some 0 else Some (real n / time))
      | URLError \<Rightarrow> Some 0
      | IncompleteRead \<Rightarrow> None
      | ConnectionResetError \<Rightarrow> None
      | OtherException \<Rightarrow> Some 0)"

text \<open>
  The network is a function \<open>net\<close>: \<open>net k u\<close> is how the \<open>k\<close>-th download attempt of
  the process ends when it requests \<open>u\<close>.

  Every pass of the loop first builds \<^verbatim>\<open>urllib.request.Request(url=u)\<close>, before the
  \<^verbatim>\<open>try\<close> statement. The constructor unwraps the text (\<open>unwrap\<close>: whitespace around
  it, a pair of angle brackets, a leading \<^verbatim>\<open>URL:\<close>), splits off what follows the last
  \<open>#\<close> (\<open>splittag\<close>), and reads the type: the text before the first colon, which must
  not be empty and must hold no slash (\<open>splittype\<close>). Without a type it raises
  \<^verbatim>\<open>ValueError\<close>. It then reads the host of the request with \<^verbatim>\<open>urlparse\<close> of the
  full url, which raises as described above. No clause of the loop catches what the
  constructor raises: the exception leaves the property.
\<close>

definition unwrap :: "string \<Rightarrow> string" where
  "unwrap url0 =
     (let url1 = strip url0;
          url2 = (if take 1 url1 = ''<'' \<and> take 1 (rev url1) = ''>''
                  then strip (butlast (tl url1)) else url1)
      in if take 4 url2 = ''URL:'' then strip (drop 4 url2) else url2)"

definition splittag :: "string \<Rightarrow> string \<times> string option" where
  "splittag u =
     (if CHR ''#'' \<in> set u
      then (let tag = rev (takeWhile (\<lambda>c. c \<noteq> CHR ''#'') (rev u))
            in (take (length u - length tag - 1) u, Some tag))
      else (u, None))"

definition splittype :: "string \<Rightarrow> string option" where
  "splittype u =
     (let s = takeWhile (\<lambda>c. c \<noteq> CHR ''/'' \<and> c \<noteq> CHR '':'') u
      in if s \<noteq> [] \<and> take 1 (drop (length s) u) = '':'' then Some (map ascii_lower s) else None)"

definition Request :: "string \<Rightarrow> error + string" where
  "Request u =
     (case splittag (unwrap u) of
        (path, tag) \<Rightarrow>
          (case splittype path of
             None \<Rightarrow> Inl ValueError
           | Some tp \<Rightarrow>
               (let full_url = (case tag of
                                  None \<Rightarrow> path
                                | Some t \<Rightarrow> if t = [] then path else path @ ''#'' @ t)
                in case urlparse full_url of
                     Inl err \<Rightarrow> Inl err
                   | Inr parts \<Rightarrow> Inr full_url)))"

text \<open>
  \<open>speed_loop\<close> is the \<^verbatim>\<open>while\<close> loop: \<open>retry\<close> counts the passes, \<open>k\<close> the attempts
  of the process, \<open>sp\<close> is \<^verbatim>\<open>_speed\<close>. It ends with the exception of the constructor
  or with \<^verbatim>\<open>_speed\<close>.
\<close>

function speed_loop ::
  "(nat \<Rightarrow> string \<Rightarrow> download) \<Rightarrow> string \<Rightarrow> int \<Rightarrow> int \<Rightarrow> nat \<Rightarrow> real option \<Rightarrow>
     (error + real option) \<times> nat" where
  "speed_loop net u retries retry k sp =
     (if retry < retries \<and> sp = None
      then (case Request u of
              Inl err \<Rightarrow> (Inl err, k)
            | Inr req \<Rightarrow>
                speed_loop net u retries (retry + 1) (Suc k) (after_attempt (net k u)))
      else (Inr sp, k))"
  by pat_completeness auto
termination
  by (relation "measure (\<lambda>(net, u, retries, retry, k, sp). nat (retries - retry))") auto

declare speed_loop.simps [simp del]

text \<open>
  The property \<^verbatim>\<open>speed\<close>: the value or the exception, the entry as the read left it,
  and the number of download attempts of the process so far. The retry budget is stored
  before the loop, so it is stored also when the loop raises; \<^verbatim>\<open>_speed\<close> is stored
  only when the loop ends.
\<close>

definition speed ::
  "(nat \<Rightarrow> string \<Rightarrow> download) \<Rightarrow> nat \<Rightarrow> MirrorStatusEntryV3 \<Rightarrow>
     (error + real) \<times> MirrorStatusEntryV3 \<times> nat" where
  "speed net k e =
     (case priv_speed e of
        Some v \<Rightarrow> (Inr v, e, k)
      | None \<Rightarrow>
          (let retries = (case priv_speedtest_retries e of
                            None \<Rightarrow> 3
                          | Some r \<Rightarrow> if r = 0 then 3 else if r < 1 then 1 else r);
               e1 = e\<lparr>priv_speedtest_retries := Some retries\<rparr>
           in case speed_loop net (url e @ ''core/os/x86_64/core.db'') retries 0 k None of
                (Inl err, k') \<Rightarrow> (Inl err, e1, k')
              | (Inr sp, k') \<Rightarrow>
                  (let v = (case sp of None \<Rightarrow> 0 | Some v \<Rightarrow> v)
                   in (Inr v, e1\<lparr>priv_speed := Some v\<rparr>, k'))))"

subsection \<open>Dictionaries\<close>

text \<open>
  \<^verbatim>\<open>d[k] = v\<close> keeps the place of a key that is there and puts a new key last;
  \<^verbatim>\<open>d.setdefault(k, v)\<close> changes nothing when the key is there;
  \<^verbatim>\<open>d.setdefault(k, []).append(x)\<close> is \<open>setdefault_append\<close>.
\<close>

fun dict_update :: "'k \<Rightarrow> 'v \<Rightarrow> ('k \<times> 'v) list \<Rightarrow> ('k \<times> 'v) list" where
  "dict_update k v [] = [(k, v)]"
| "dict_update k v (p # m) = (if fst p = k then (k, v) # m else p # dict_update k v m)"

definition setdefault :: "'k \<Rightarrow> 'v \<Rightarrow> ('k \<times> 'v) list \<Rightarrow> ('k \<times> 'v) list" where
  "setdefault k v m = (case map_of m k of None \<Rightarrow> m @ [(k, v)] | Some _ \<Rightarrow> m)"

definition setdefault_append :: "'k \<Rightarrow> 'v \<Rightarrow> ('k \<times> 'v list) list \<Rightarrow> ('k \<times> 'v list) list" where
  "setdefault_append k x m =
     dict_update k ((case map_of m k of None \<Rightarrow> [] | Some xs \<Rightarrow> xs) @ [x]) m"

type_synonym mappings = "(string \<times> MirrorStatusEntryV3 list) list"

subsection \<open>The remote status feed\<close>

text \<open>
  The text the endpoint returns is \<open>Malformed\<close> (no JSON, or a JSON object whose fields
  \<^verbatim>\<open>cutoff\<close>, \<^verbatim>\<open>last_check\<close>, \<^verbatim>\<open>num_checks\<close>, \<^verbatim>\<open>urls\<close> do not have the types
  \<^verbatim>\<open>MirrorStatusListV3\<close> and \<^verbatim>\<open>MirrorStatusEntryV3\<close> declare), or it is
  \<open>Not_object\<close> (JSON, but a value that is no object), or it is a \<open>Feed\<close>: the fields
  as field validation reads them, and the \<^verbatim>\<open>version\<close> as the JSON value it is,
  \<open>None\<close> when the key is absent. Of an array or an object only the kind is kept: the
  code compares the version with 3.
\<close>

datatype json = JNull | JBool bool | JInt int | JFloat real | JStr string | JArray | JObject

record feed_data =
  data_version :: "json option"
  data_cutoff :: int
  data_last_check :: datetime
  data_num_checks :: int
  data_urls :: "MirrorStatusEntryV3 list"

datatype feed_text = Malformed | Not_object | Feed feed_data

record MirrorStatusListV3 =
  cutoff :: int
  last_check :: datetime
  num_checks :: int
  urls :: "MirrorStatusEntryV3 list"
  version :: int

text \<open>Python's \<^verbatim>\<open>v == 3\<close> on a JSON value: a number equal to three.\<close>

definition equals_3 :: "json \<Rightarrow> bool" where
  "equals_3 v = (case v of JInt i \<Rightarrow> i = 3 | JFloat x \<Rightarrow> x = 3 | _ \<Rightarrow> False)"

definition check_model :: "feed_data \<Rightarrow> error + feed_data" where
  "check_model data =
     (if (case data_version data of None \<Rightarrow> False | Some v \<Rightarrow> equals_3 v) then Inr data
      else Inl ValueError)"

definition new_entries :: "MirrorStatusEntryV3 list \<Rightarrow> error + MirrorStatusEntryV3 list" where
  "new_entries es = traverse new_entry es"

text \<open>
  \<^verbatim>\<open>MirrorStatusListV3.model_validate_json\<close>: \<open>check_model\<close> runs before the fields
  are validated, then every entry is constructed. \<open>check_model\<close> calls \<^verbatim>\<open>data.get\<close>:
  on a value that is no object this raises \<^verbatim>\<open>AttributeError\<close>.
\<close>

definition model_validate_json :: "feed_text \<Rightarrow> error + MirrorStatusListV3" where
  "model_validate_json t =
     (case t of
        Malformed \<Rightarrow> Inl ValueError
      | Not_object \<Rightarrow> Inl AttributeError
      | Feed data \<Rightarrow>
          (case check_model data of
             Inl err \<Rightarrow> Inl err
           | Inr d \<Rightarrow>
               (case new_entries (data_urls d) of
                  Inl err \<Rightarrow> Inl err
                | Inr es \<Rightarrow>
                    Inr \<lparr>cutoff = data_cutoff d, last_check = data_last_check d,
                         num_checks = data_num_checks d, urls = es, version = 3\<rparr>)))"

text \<open>
  \<^verbatim>\<open>MirrorListHandler._parse_remote_mirror_list\<close>. \<open>bad_criteria\<close> is the argument of
  \<^verbatim>\<open>any\<close>; \<open>worldwide\<close> is the statement that names the country of an entry
  without one; \<open>remote_loop\<close> is the \<^verbatim>\<open>for\<close> loop, with \<^verbatim>\<open>sorting_placeholder\<close> as
  its second argument; the regions are then sorted by name.
\<close>

definition bad_criteria :: "MirrorStatusEntryV3 \<Rightarrow> bool" where
  "bad_criteria mirror =
     (active mirror = False \<or> last_sync mirror = None \<or>
      (case score mirror of None \<Rightarrow> True | Some x \<Rightarrow> x \<ge> 100))"

definition worldwide :: "MirrorStatusEntryV3 \<Rightarrow> MirrorStatusEntryV3" where
  "worldwide mirror =
     (if country mirror = '''' then mirror\<lparr>country := ''Worldwide''\<rparr> else mirror)"

fun remote_loop :: "MirrorStatusEntryV3 list \<Rightarrow> mappings \<Rightarrow> mappings" where
  "remote_loop [] sorting_placeholder = sorting_placeholder"
| "remote_loop (mirror # rest) sorting_placeholder =
     (if bad_criteria mirror then remote_loop rest sorting_placeholder
      else
        (let mirror' = worldwide mirror
         in if startswith (url mirror') ''http''
            then remote_loop rest (setdefault_append (country mirror') mirror' sorting_placeholder)
            else remote_loop rest sorting_placeholder))"

definition parse_remote_mirror_list :: "feed_text \<Rightarrow> error + mappings" where
  "parse_remote_mirror_list mirrorlist =
     (case model_validate_json mirrorlist of
        Inl err \<Rightarrow> Inl err
      | Inr mirror_status \<Rightarrow> Inr (sort_key fst (remote_loop (urls mirror_status) [])))"

subsection \<open>The local mirror list\<close>

text \<open>
  \<^verbatim>\<open>MirrorListHandler._parse_locale_mirrors\<close>. \<open>locale_step\<close> is the body of the
  \<^verbatim>\<open>for\<close> loop on one line, from \<^verbatim>\<open>current_region\<close> and \<^verbatim>\<open>mirror_list\<close> to their
  new values; \<open>local_entry\<close> is the entry the body constructs.
\<close>

definition local_entry :: "string \<Rightarrow> string \<Rightarrow> error + MirrorStatusEntryV3" where
  "local_entry current_region u =
     (case urlparse u of
        Inl err \<Rightarrow> Inl err
      | Inr parts \<Rightarrow>
          new_entry
            \<lparr>url = removesuffix u ''$repo/os/$arch'',
             protocol = scheme parts,
             active = True,
             country = (if current_region = '''' then ''Worldwide'' else current_region),
             country_code = ''WW'',
             isos = True,
             ipv4 = True,
             ipv6 = True,
             details = ''Locally defined mirror'',
             delay = None,
             last_sync = None,
             duration_avg = None,
             duration_stddev = None,
             completion_pct = None,
             score = None,
             priv_latency = None,
             priv_speed = None,
             priv_hostname = None,
             priv_port = None,
             priv_speedtest_retries = None\<rparr>)"

definition locale_step :: "string \<Rightarrow> string \<times> mappings \<Rightarrow> error + string \<times> mappings" where
  "locale_step line0 st =
     (let line = strip line0;
          (current_region, mirror_list) =
            (if startswith line ''## ''
             then (let r = strip (replace ''## '' '''' line) in (r, setdefault r [] (snd st)))
             else st)
      in if startswith line ''Server = ''
         then
           (let (current_region, mirror_list) =
                  (if current_region = '''' then (''Local'', setdefault ''Local'' [] mirror_list)
                   else (current_region, mirror_list))
            in case local_entry current_region (removeprefix line ''Server = '') of
                 Inl err \<Rightarrow> Inl err
               | Inr mirror_entry \<Rightarrow>
                   (case map_of mirror_list current_region of
                      None \<Rightarrow> Inl KeyError
                    | Some xs \<Rightarrow>
                        Inr (current_region,
                             dict_update current_region (xs @ [mirror_entry]) mirror_list)))
         else Inr (current_region, mirror_list))"

fun locale_loop :: "string list \<Rightarrow> string \<times> mappings \<Rightarrow> error + mappings" where
  "locale_loop [] st = Inr (snd st)"
| "locale_loop (line # lines) st =
     (case locale_step line st of Inl err \<Rightarrow> Inl err | Inr st' \<Rightarrow> locale_loop lines st')"

definition parse_locale_mirrors :: "string \<Rightarrow> error + mappings" where
  "parse_locale_mirrors mirrorlist = locale_loop (splitlines mirrorlist) ('''', [])"

subsection \<open>The loader\<close>

text \<open>
  What the loader meets outside the process: the offline flag
  (\<^verbatim>\<open>arch_config_handler.args.offline\<close>), how the \<open>k\<close>-th call of
  \<^verbatim>\<open>fetch_data_from_url\<close> ends, what opening and reading the local mirror list gives,
  and the network of the speed probe.
\<close>

record world =
  offline :: bool
  fetch_data_from_url :: "nat \<Rightarrow> error + feed_text"
  local_mirrorlist :: "error + string"
  net :: "nat \<Rightarrow> string \<Rightarrow> download"

text \<open>
  What the loader does to the outside, in order: a call of \<^verbatim>\<open>fetch_data_from_url\<close>,
  the \<^verbatim>\<open>debug\<close> line of a failed attempt with its exception, \<^verbatim>\<open>time.sleep(n)\<close>, the
  \<^verbatim>\<open>debug\<close> line of the fallback, and the opening of the local mirror list.
\<close>

datatype event = Fetch | Debug_error error | Sleep nat | Debug_fallback | Open_local

text \<open>
  \<^verbatim>\<open>MirrorListHandler\<close>: its attribute \<^verbatim>\<open>_status_mappings\<close>, and with it the
  events so far and the numbers of fetches and of download attempts so far.
\<close>

record MirrorListHandler =
  status_mappings :: "mappings option"
  events :: "event list"
  fetches :: nat
  downloads :: nat

text \<open>
  \<^verbatim>\<open>load_remote_mirrors\<close>: \<open>fetch_attempt w j\<close> is the body of the \<^verbatim>\<open>try\<close>
  statement when the fetch is the \<open>j\<close>-th of the process (the fetch, then the
  parse); \<open>remote_attempts\<close> is the \<^verbatim>\<open>for\<close> loop over \<^verbatim>\<open>range(attempts)\<close> and
  what follows it.
\<close>

definition fetch_attempt :: "world \<Rightarrow> nat \<Rightarrow> error + mappings" where
  "fetch_attempt w j =
     (case fetch_data_from_url w j of
        Inl err \<Rightarrow> Inl err
      | Inr mirrorlist \<Rightarrow> parse_remote_mirror_list mirrorlist)"

fun remote_attempts :: "world \<Rightarrow> nat list \<Rightarrow> MirrorListHandler \<Rightarrow> bool \<times> MirrorListHandler" where
  "remote_attempts w [] h = (False, h\<lparr>events := events h @ [Debug_fallback]\<rparr>)"
| "remote_attempts w (attempt_nr # rest) h =
     (let h1 = h\<lparr>events := events h @ [Fetch], fetches := Suc (fetches h)\<rparr>
      in case fetch_attempt w (fetches h) of
           Inr m \<Rightarrow> (True, h1\<lparr>status_mappings := Some m\<rparr>)
         | Inl err \<Rightarrow>
             remote_attempts w rest
               (h1\<lparr>events := events h1 @ [Debug_error err, Sleep (attempt_nr + 1)]\<rparr>))"

definition load_remote_mirrors :: "world \<Rightarrow> MirrorListHandler \<Rightarrow> bool \<times> MirrorListHandler" where
  "load_remote_mirrors w h = remote_attempts w [0..<3] h"

text \<open>
  \<^verbatim>\<open>load_local_mirrors\<close> and \<^verbatim>\<open>load_mirrors\<close> return no value; the first component
  of the result is the exception that left them, if any.
\<close>

definition load_local_mirrors :: "world \<Rightarrow> MirrorListHandler \<Rightarrow> error option \<times> MirrorListHandler" where
  "load_local_mirrors w h =
     (let h1 = h\<lparr>events := events h @ [Open_local]\<rparr>
      in case local_mirrorlist w of
           Inl err \<Rightarrow> (Some err, h1)
         | Inr mirrorlist \<Rightarrow>
             (case parse_locale_mirrors mirrorlist of
                Inl err \<Rightarrow> (Some err, h1)
              | Inr m \<Rightarrow> (None, h1\<lparr>status_mappings := Some m\<rparr>)))"

definition load_mirrors :: "world \<Rightarrow> MirrorListHandler \<Rightarrow> error option \<times> MirrorListHandler" where
  "load_mirrors w h =
     (if offline w then load_local_mirrors w h
      else
        (let (ok, h1) = load_remote_mirrors w h
         in if \<not> ok then load_local_mirrors w h1 else (None, h1)))"

text \<open>\<^verbatim>\<open>_mappings\<close>: the first call loads.\<close>

definition mappings_of :: "world \<Rightarrow> MirrorListHandler \<Rightarrow> (error + mappings) \<times> MirrorListHandler" where
  "mappings_of w h =
     (let (raised, h1) = (if status_mappings h = None then load_mirrors w h else (None, h))
      in case raised of
           Some err \<Rightarrow> (Inl err, h1)
         | None \<Rightarrow>
             (case status_mappings h1 of
                None \<Rightarrow> (Inl AssertionError, h1)
              | Some m \<Rightarrow> (Inr m, h1)))"

text \<open>
  \<^verbatim>\<open>get_status_by_region\<close>. \<^verbatim>\<open>sorted\<close> first computes the key of every entry, in the
  order of the list: \<open>sort_keys\<close> reads \<^verbatim>\<open>speed\<close> of each entry and returns each key
  with the entry as the read left it, or the exception of the first read that raised;
  with it the list as the reads left it. The keys are pairs; Python compares two pairs
  by their first components that differ, and \<^verbatim>\<open>None\<close> is not comparable with a number:
  \<open>comparable\<close> holds when no such comparison can come up. \<^verbatim>\<open>sorted\<close> is stable, as
  \<open>sort_key\<close> is. The entries of the region are the objects of the mapping, so the
  mapping holds them as the reads left them.
\<close>

fun sort_keys ::
  "(nat \<Rightarrow> string \<Rightarrow> download) \<Rightarrow> nat \<Rightarrow> MirrorStatusEntryV3 list \<Rightarrow>
     (error + ((real option \<times> real) \<times> MirrorStatusEntryV3) list) \<times> MirrorStatusEntryV3 list \<times> nat" where
  "sort_keys nt k [] = (Inr [], [], k)"
| "sort_keys nt k (mirror # rest) =
     (case speed nt k mirror of
        (Inl err, mirror', k1) \<Rightarrow> (Inl err, mirror' # rest, k1)
      | (Inr v, mirror', k1) \<Rightarrow>
          (case sort_keys nt k1 rest of
             (Inl err, rest', k2) \<Rightarrow> (Inl err, mirror' # rest', k2)
           | (Inr keyed, rest', k2) \<Rightarrow>
               (Inr (((score mirror', v), mirror') # keyed), mirror' # rest', k2)))"

definition comparable :: "(real option \<times> real) list \<Rightarrow> bool" where
  "comparable ks = (list_all (\<lambda>key. fst key = None) ks \<or> list_all (\<lambda>key. fst key \<noteq> None) ks)"

definition get_status_by_region ::
  "world \<Rightarrow> MirrorListHandler \<Rightarrow> string \<Rightarrow> bool \<Rightarrow>
     (error + MirrorStatusEntryV3 list) \<times> MirrorListHandler" where
  "get_status_by_region w h region speed_sort =
     (case mappings_of w h of
        (Inl err, h1) \<Rightarrow> (Inl err, h1)
      | (Inr m, h1) \<Rightarrow>
          (case map_of m region of
             None \<Rightarrow> (Inl KeyError, h1)
           | Some region_list \<Rightarrow>
               (case sort_keys (net w) (downloads h1) region_list of
                  (keys, region_list', k) \<Rightarrow>
                    (let h2 = h1\<lparr>status_mappings := Some (dict_update region region_list' m),
                                  downloads := k\<rparr>
                     in case keys of
                          Inl err \<Rightarrow> (Inl err, h2)
                        | Inr keyed \<Rightarrow>
                            if comparable (map fst keyed)
                            then (Inr (map snd (sort_key fst keyed)), h2)
                            else (Inl TypeError, h2)))))"

subsection \<open>The enums of the configuration\<close>

text \<open>
  For an enum \<open>E\<close>, \<open>E_value\<close> is \<^verbatim>\<open>.value\<close> and \<open>E_of\<close> is the call
  \<^verbatim>\<open>E(text)\<close>, which raises \<^verbatim>\<open>ValueError\<close> when no member has that value.
\<close>

datatype SignCheck = Never | Optional | Required

datatype SignOption = TrustedOnly | TrustAll

datatype ReflectorSortOrder = Age | Rate | Country | Score | Delay

datatype ReflectorProtocol = HTTP | HTTPS | FTP | RSYNC

fun SignCheck_value :: "SignCheck \<Rightarrow> string" where
  "SignCheck_value Never = ''Never''"
| "SignCheck_value Optional = ''Optional''"
| "SignCheck_value Required = ''Required''"

definition SignCheck_of :: "string \<Rightarrow> error + SignCheck" where
  "SignCheck_of s =
     (if s = ''Never'' then Inr Never
      else if s = ''Optional'' then Inr Optional
      else if s = ''Required'' then Inr Required
      else Inl ValueError)"

fun SignOption_value :: "SignOption \<Rightarrow> string" where
  "SignOption_value TrustedOnly = ''TrustedOnly''"
| "SignOption_value TrustAll = ''TrustAll''"

definition SignOption_of :: "string \<Rightarrow> error + SignOption" where
  "SignOption_of s =
     (if s = ''TrustedOnly'' then Inr TrustedOnly
      else if s = ''TrustAll'' then Inr TrustAll
      else Inl ValueError)"

fun ReflectorSortOrder_value :: "ReflectorSortOrder \<Rightarrow> string" where
  "ReflectorSortOrder_value Age = ''age''"
| "ReflectorSortOrder_value Rate = ''rate''"
| "ReflectorSortOrder_value Country = ''country''"
| "ReflectorSortOrder_value Score = ''score''"
| "ReflectorSortOrder_value Delay = ''delay''"

definition ReflectorSortOrder_of :: "string \<Rightarrow> error + ReflectorSortOrder" where
  "ReflectorSortOrder_of s =
     (if s = ''age'' then Inr Age
      else if s = ''rate'' then Inr Rate
      else if s = ''country'' then Inr Country
      else if s = ''score'' then Inr Score
      else if s = ''delay'' then Inr Delay
      else Inl ValueError)"

fun ReflectorProtocol_value :: "ReflectorProtocol \<Rightarrow> string" where
  "ReflectorProtocol_value HTTP = ''http''"
| "ReflectorProtocol_value HTTPS = ''https''"
| "ReflectorProtocol_value FTP = ''ftp''"
| "ReflectorProtocol_value RSYNC = ''rsync''"

definition ReflectorProtocol_of :: "string \<Rightarrow> error + ReflectorProtocol" where
  "ReflectorProtocol_of s =
     (if s = ''http'' then Inr HTTP
      else if s = ''https'' then Inr HTTPS
      else if s = ''ftp'' then Inr FTP
      else if s = ''rsync'' then Inr RSYNC
      else Inl ValueError)"

subsection \<open>The reflector configuration\<close>

record ReflectorConfiguration =
  enabled :: bool
  countries :: "string list"
  protocols :: "ReflectorProtocol list"
  age :: int
  latest :: int
  sort_order :: ReflectorSortOrder
  verbose :: bool

text \<open>\<^verbatim>\<open>ReflectorConfiguration()\<close>: the defaults of the dataclass.\<close>

definition default_reflector :: ReflectorConfiguration where
  "default_reflector =
     \<lparr>enabled = False, countries = [], protocols = [HTTPS], age = 12, latest = 20,
      sort_order = Rate, verbose = True\<rparr>"

text \<open>
  \<^verbatim>\<open>to_command_args\<close>: the list \<^verbatim>\<open>args\<close> grows statement by statement.
\<close>

definition to_command_args :: "ReflectorConfiguration \<Rightarrow> string list" where
  "to_command_args c =
     (let args = [''reflector''];
          args = (if verbose c then args @ [''--verbose''] else args);
          args = (if countries c \<noteq> [] then args @ [''--country'', join '','' (countries c)]
                  else args);
          args = (if protocols c \<noteq> []
                  then args @ [''--protocol'', join '','' (map ReflectorProtocol_value (protocols c))]
                  else args)
      in args @ [''--age'', str_int (age c), ''--latest'', str_int (latest c),
                 ''--sort'', ReflectorSortOrder_value (sort_order c)])"

definition to_command_string :: "ReflectorConfiguration \<Rightarrow> string" where
  "to_command_string c =
     ''sudo '' @ join '' '' (to_command_args c @ [''--save'', ''/etc/pacman.d/mirrorlist''])"

text \<open>
  The persisted form of a reflector configuration is a dictionary with the seven keys
  of \<^verbatim>\<open>ReflectorConfiguration.json\<close>; a field of \<open>reflector_args\<close> is \<open>None\<close>
  when the dictionary lacks the key. The values have the types \<^verbatim>\<open>json\<close> gives them.
\<close>

record reflector_args =
  arg_enabled :: "bool option"
  arg_countries :: "string list option"
  arg_protocols :: "string list option"
  arg_age :: "int option"
  arg_latest :: "int option"
  arg_sort_order :: "string option"
  arg_verbose :: "bool option"

definition ReflectorConfiguration_json :: "ReflectorConfiguration \<Rightarrow> reflector_args" where
  "ReflectorConfiguration_json c =
     \<lparr>arg_enabled = Some (enabled c),
      arg_countries = Some (countries c),
      arg_protocols = Some (map ReflectorProtocol_value (protocols c)),
      arg_age = Some (age c),
      arg_latest = Some (latest c),
      arg_sort_order = Some (ReflectorSortOrder_value (sort_order c)),
      arg_verbose = Some (verbose c)\<rparr>"

definition get_default :: "'a option \<Rightarrow> 'a \<Rightarrow> 'a" where
  "get_default v d = (case v of None \<Rightarrow> d | Some x \<Rightarrow> x)"

definition ReflectorConfiguration_parse_args :: "reflector_args \<Rightarrow> error + ReflectorConfiguration" where
  "ReflectorConfiguration_parse_args args =
     (case traverse ReflectorProtocol_of (get_default (arg_protocols args) [''https'']) of
        Inl err \<Rightarrow> Inl err
      | Inr ps \<Rightarrow>
          (case ReflectorSortOrder_of (get_default (arg_sort_order args) ''rate'') of
             Inl err \<Rightarrow> Inl err
           | Inr order \<Rightarrow>
               Inr \<lparr>enabled = get_default (arg_enabled args) False,
                    countries = get_default (arg_countries args) [],
                    protocols = ps,
                    age = get_default (arg_age args) 12,
                    latest = get_default (arg_latest args) 20,
                    sort_order = order,
                    verbose = get_default (arg_verbose args) True\<rparr>))"

subsection \<open>Custom repositories, custom servers, regions\<close>

text \<open>
  The fields \<^verbatim>\<open>url\<close> of \<^verbatim>\<open>CustomRepository\<close> and of \<^verbatim>\<open>CustomServer\<close> are
  \<open>repo_url\<close> and \<open>custom_url\<close>, the fields of \<^verbatim>\<open>MirrorRegion\<close> are \<open>region_name\<close>
  and \<open>region_urls\<close>: a record field is a constant of the theory, and \<open>url\<close> and
  \<open>urls\<close> are taken.
\<close>

record CustomRepository =
  name :: string
  repo_url :: string
  sign_check :: SignCheck
  sign_option :: SignOption

record CustomServer =
  custom_url :: string

record MirrorRegion =
  region_name :: string
  region_urls :: "string list"

text \<open>\<^verbatim>\<open>d[k]\<close> on a dictionary.\<close>

definition getitem :: "('k \<times> 'v) list \<Rightarrow> 'k \<Rightarrow> error + 'v" where
  "getitem d k = (case map_of d k of None \<Rightarrow> Inl KeyError | Some v \<Rightarrow> Inr v)"

definition CustomRepository_json :: "CustomRepository \<Rightarrow> (string \<times> string) list" where
  "CustomRepository_json c =
     [(''name'', name c), (''url'', repo_url c),
      (''sign_check'', SignCheck_value (sign_check c)),
      (''sign_option'', SignOption_value (sign_option c))]"

text \<open>
  \<^verbatim>\<open>CustomRepository.parse_args\<close>: \<open>parse_repository\<close> is the constructor call of
  the loop body, its arguments evaluated from left to right.
\<close>

definition parse_repository :: "(string \<times> string) list \<Rightarrow> error + CustomRepository" where
  "parse_repository arg =
     (case getitem arg ''name'' of
        Inl err \<Rightarrow> Inl err
      | Inr n \<Rightarrow>
     (case getitem arg ''url'' of
        Inl err \<Rightarrow> Inl err
      | Inr u \<Rightarrow>
     (case getitem arg ''sign_check'' of
        Inl err \<Rightarrow> Inl err
      | Inr sc \<Rightarrow>
     (case SignCheck_of sc of
        Inl err \<Rightarrow> Inl err
      | Inr chk \<Rightarrow>
     (case getitem arg ''sign_option'' of
        Inl err \<Rightarrow> Inl err
      | Inr so \<Rightarrow>
     (case SignOption_of so of
        Inl err \<Rightarrow> Inl err
      | Inr opt \<Rightarrow>
          Inr \<lparr>name = n, repo_url = u, sign_check = chk, sign_option = opt\<rparr>))))))"

definition CustomRepository_parse_args ::
  "(string \<times> string) list list \<Rightarrow> error + CustomRepository list" where
  "CustomRepository_parse_args args = traverse parse_repository args"

text \<open>
  \<^verbatim>\<open>CustomServer.parse_args\<close> subscripts every item with \<^verbatim>\<open>'url'\<close>. An item is a
  dictionary, or it is a \<^verbatim>\<open>CustomServer\<close> object, which is what
  \<^verbatim>\<open>MirrorConfiguration.json\<close> puts in the list: an object of the dataclass has no
  subscript, and \<^verbatim>\<open>arg['url']\<close> raises \<^verbatim>\<open>TypeError\<close>.
\<close>

datatype server_arg = Server_dict "(string \<times> string) list" | Server_object CustomServer

definition parse_server :: "server_arg \<Rightarrow> error + CustomServer" where
  "parse_server arg =
     (case arg of
        Server_object obj \<Rightarrow> Inl TypeError
      | Server_dict d \<Rightarrow>
          (case getitem d ''url'' of Inl err \<Rightarrow> Inl err | Inr u \<Rightarrow> Inr \<lparr>custom_url = u\<rparr>))"

definition CustomServer_json :: "CustomServer \<Rightarrow> (string \<times> string) list" where
  "CustomServer_json c = [(''url'', custom_url c)]"

definition CustomServer_parse_args :: "server_arg list \<Rightarrow> error + CustomServer list" where
  "CustomServer_parse_args args = traverse parse_server args"

definition MirrorRegion_json :: "MirrorRegion \<Rightarrow> (string \<times> string list) list" where
  "MirrorRegion_json m = [(region_name m, region_urls m)]"

subsection \<open>The configuration aggregate\<close>

text \<open>
  The enum \<^verbatim>\<open>Repository\<close> of \<^verbatim>\<open>models/packages.py\<close> is not among the sources. Its
  members are the values of a type variable \<open>'r\<close>, and its two operations are
  parameters: \<open>repo_value\<close> is \<^verbatim>\<open>.value\<close>, and \<open>repo_of\<close> is the call
  \<^verbatim>\<open>Repository(text)\<close>, \<open>None\<close> where it raises \<^verbatim>\<open>ValueError\<close>.
\<close>

record 'r MirrorConfiguration =
  mirror_regions :: "MirrorRegion list"
  custom_servers :: "CustomServer list"
  optional_repositories :: "'r list"
  custom_repositories :: "CustomRepository list"
  reflector :: ReflectorConfiguration

text \<open>
  The persisted form: a dictionary with the keys of \<^verbatim>\<open>MirrorConfiguration.json\<close> and
  the legacy key \<^verbatim>\<open>custom_mirrors\<close>; a field of \<open>mirror_args\<close> is \<open>None\<close> when the
  dictionary lacks the key.
\<close>

record mirror_args =
  arg_mirror_regions :: "(string \<times> string list) list option"
  arg_custom_servers :: "server_arg list option"
  arg_custom_mirrors :: "(string \<times> string) list list option"
  arg_custom_repositories :: "(string \<times> string) list list option"
  arg_optional_repositories :: "string list option"
  arg_reflector :: "reflector_args option"

text \<open>
  \<^verbatim>\<open>MirrorConfiguration.json\<close>. \<^verbatim>\<open>regions.update(m.json())\<close> sets the key
  \<^verbatim>\<open>m.name\<close>; the custom servers go into the result as the objects they are.
\<close>

definition MirrorConfiguration_json :: "('r \<Rightarrow> string) \<Rightarrow> 'r MirrorConfiguration \<Rightarrow> mirror_args" where
  "MirrorConfiguration_json repo_value c =
     (let regions = fold (\<lambda>m regions. fold (\<lambda>(k, v). dict_update k v) (MirrorRegion_json m) regions)
                      (mirror_regions c) []
      in \<lparr>arg_mirror_regions = Some regions,
          arg_custom_servers = Some (map Server_object (custom_servers c)),
          arg_custom_mirrors = None,
          arg_custom_repositories = Some (map CustomRepository_json (custom_repositories c)),
          arg_optional_repositories = Some (map repo_value (optional_repositories c)),
          arg_reflector = Some (ReflectorConfiguration_json (reflector c))\<rparr>)"

text \<open>
  \<^verbatim>\<open>MirrorConfiguration.parse_args\<close>, statement by statement: \<open>merge_repo\<close> is the
  body of the loop over \<^verbatim>\<open>backwards_compatible_repo\<close>.
\<close>

definition merge_repo :: "'r \<Rightarrow> 'r list \<Rightarrow> 'r list" where
  "merge_repo r optional = (if r \<notin> set optional then optional @ [r] else optional)"

definition MirrorConfiguration_parse_args ::
  "(string \<Rightarrow> 'r option) \<Rightarrow> mirror_args \<Rightarrow> 'r list \<Rightarrow> error + 'r MirrorConfiguration" where
  "MirrorConfiguration_parse_args repo_of args backwards_compatible_repo =
     (let regions = map (\<lambda>(region, urls). \<lparr>region_name = region, region_urls = urls\<rparr>)
                      (get_default (arg_mirror_regions args) [])
      in
     (case (case arg_custom_servers args of
              None \<Rightarrow> Inr []
            | Some servers \<Rightarrow> if servers = [] then Inr [] else CustomServer_parse_args servers) of
        Inl err \<Rightarrow> Inl err
      | Inr servers \<Rightarrow>
     (case (case arg_custom_mirrors args of
              None \<Rightarrow> Inr []
            | Some repos \<Rightarrow> CustomRepository_parse_args repos) of
        Inl err \<Rightarrow> Inl err
      | Inr legacy \<Rightarrow>
     (case (case arg_custom_repositories args of
              None \<Rightarrow> Inr legacy
            | Some repos \<Rightarrow> CustomRepository_parse_args repos) of
        Inl err \<Rightarrow> Inl err
      | Inr repos \<Rightarrow>
     (case (case arg_optional_repositories args of
              None \<Rightarrow> Inr []
            | Some rs \<Rightarrow>
                traverse (\<lambda>r. case repo_of r of None \<Rightarrow> Inl ValueError | Some x \<Rightarrow> Inr x) rs) of
        Inl err \<Rightarrow> Inl err
      | Inr optional \<Rightarrow>
     (case (case arg_reflector args of
              None \<Rightarrow> Inr default_reflector
            | Some a \<Rightarrow> ReflectorConfiguration_parse_args a) of
        Inl err \<Rightarrow> Inl err
      | Inr rc \<Rightarrow>
          Inr \<lparr>mirror_regions = regions,
               custom_servers = servers,
               optional_repositories = fold merge_repo backwards_compatible_repo optional,
               custom_repositories = repos,
               reflector = rc\<rparr>))))))"

subsection \<open>Example values\<close>

text \<open>
  An entry and a feed of the shape the endpoint serves, for the examples among the
  properties below.
\<close>

definition example_entry :: MirrorStatusEntryV3 where
  "example_entry =
     \<lparr>url = ''https://mirror.example/archlinux/'', protocol = ''https'', active = True,
      country = ''Germany'', country_code = ''DE'', isos = True, ipv4 = True, ipv6 = False,
      details = ''https://archlinux.org/mirrors/mirror.example/1/'', delay = Some 3600,
      last_sync = Some ''2024-01-01T00:00:00Z'', duration_avg = Some 0.5,
      duration_stddev = Some 0.1, completion_pct = Some 1, score = Some 1.5,
      priv_latency = None, priv_speed = None, priv_hostname = None, priv_port = None,
      priv_speedtest_retries = None\<rparr>"

definition example_feed :: "MirrorStatusEntryV3 list \<Rightarrow> feed_text" where
  "example_feed es =
     Feed \<lparr>data_version = Some (JInt 3), data_cutoff = 86400,
           data_last_check = ''2024-01-01T00:10:00Z'', data_num_checks = 48, data_urls = es\<rparr>"

section \<open>Properties\<close>

subsection \<open>The arguments of the ranking tool\<close>

text \<open>
  C7. The argument list of \<^verbatim>\<open>to_command_args\<close> is the program name, then an
  optional part \<open>v\<close>, an optional part \<open>k\<close>, an optional part \<open>p\<close>, and always
  \<^verbatim>\<open>--age\<close>, \<^verbatim>\<open>--latest\<close> and \<^verbatim>\<open>--sort\<close> with their values. \<open>v\<close> is \<^verbatim>\<open>--verbose\<close>
  exactly when the flag is set; \<open>k\<close> is \<^verbatim>\<open>--country\<close> with the comma-joined countries
  exactly when there are countries; \<open>p\<close> is \<^verbatim>\<open>--protocol\<close> with the comma-joined
  protocol names exactly when there are protocols; a part that is not included is empty.
\<close>

theorem to_command_args_options:
  "\<exists>v k p.
     to_command_args c =
       [''reflector''] @ v @ k @ p @
       [''--age'', str_int (age c), ''--latest'', str_int (latest c),
        ''--sort'', ReflectorSortOrder_value (sort_order c)] \<and>
     (v = [''--verbose''] \<or> v = []) \<and> (v = [''--verbose''] \<longleftrightarrow> verbose c) \<and>
     (k = [''--country'', join '','' (countries c)] \<or> k = []) \<and>
     (k = [''--country'', join '','' (countries c)] \<longleftrightarrow> countries c \<noteq> []) \<and>
     (p = [''--protocol'', join '','' (map ReflectorProtocol_value (protocols c))] \<or> p = []) \<and>
     (p = [''--protocol'', join '','' (map ReflectorProtocol_value (protocols c))]
        \<longleftrightarrow> protocols c \<noteq> []) \<and>
     ''--age'' \<in> set (to_command_args c) \<and>
     ''--latest'' \<in> set (to_command_args c) \<and>
     ''--sort'' \<in> set (to_command_args c)"
proof -
  let ?v = "if verbose c then [''--verbose''] else []"
  let ?k = "if countries c \<noteq> [] then [''--country'', join '','' (countries c)] else []"
  let ?p = "if protocols c \<noteq> []
            then [''--protocol'', join '','' (map ReflectorProtocol_value (protocols c))] else []"
  have args: "to_command_args c =
       [''reflector''] @ ?v @ ?k @ ?p @
       [''--age'', str_int (age c), ''--latest'', str_int (latest c),
        ''--sort'', ReflectorSortOrder_value (sort_order c)]"
    by (simp add: to_command_args_def Let_def)
  have v: "(?v = [''--verbose''] \<or> ?v = []) \<and> (?v = [''--verbose''] \<longleftrightarrow> verbose c)"
    by simp
  have k: "(?k = [''--country'', join '','' (countries c)] \<or> ?k = []) \<and>
     (?k = [''--country'', join '','' (countries c)] \<longleftrightarrow> countries c \<noteq> [])"
    by simp
  have p: "(?p = [''--protocol'', join '','' (map ReflectorProtocol_value (protocols c))] \<or> ?p = []) \<and>
     (?p = [''--protocol'', join '','' (map ReflectorProtocol_value (protocols c))]
        \<longleftrightarrow> protocols c \<noteq> [])"
    by simp
  have always: "''--age'' \<in> set (to_command_args c) \<and> ''--latest'' \<in> set (to_command_args c) \<and>
      ''--sort'' \<in> set (to_command_args c)"
    unfolding args by simp
  from args v k p always show ?thesis by blast
qed

lemma str_int_12: "str_int 12 = ''12''"
  by code_simp

lemma str_int_20: "str_int 20 = ''20''"
  by code_simp

theorem to_command_args_options_witness:
  "to_command_args
     \<lparr>enabled = True, countries = [''Brazil'', ''Chile''], protocols = [HTTPS], age = 12,
      latest = 20, sort_order = Rate, verbose = True\<rparr> =
   [''reflector'', ''--verbose'', ''--country'', ''Brazil,Chile'', ''--protocol'', ''https'',
    ''--age'', ''12'', ''--latest'', ''20'', ''--sort'', ''rate'']"
  using to_command_args_options
    [of "\<lparr>enabled = True, countries = [''Brazil'', ''Chile''], protocols = [HTTPS], age = 12,
      latest = 20, sort_order = Rate, verbose = True\<rparr>"]
  by (auto simp: str_int_12 str_int_20)

subsection \<open>The version of the feed\<close>

lemma equals_3_iff: "equals_3 v \<longleftrightarrow> v = JInt 3 \<or> v = JFloat 3"
  by (cases v) (simp_all add: equals_3_def)

lemma check_model_Inr:
  "check_model d = Inr d' \<longleftrightarrow> d' = d \<and> (data_version d = Some (JInt 3) \<or> data_version d = Some (JFloat 3))"
  by (auto simp: check_model_def equals_3_iff split: option.splits)

lemma check_model_Inl:
  "\<not> (data_version d = Some (JInt 3) \<or> data_version d = Some (JFloat 3)) \<Longrightarrow> check_model d = Inl ValueError"
  by (auto simp: check_model_def equals_3_iff split: option.splits)

text \<open>
  C9. \<^verbatim>\<open>check_model\<close> returns its argument only when the version is the number 3
  (the JSON numbers \<open>3\<close> and \<open>3.0\<close> are equal to 3 in Python), and so does the
  validation of the whole document. Whatever else the version is, and when the key is
  absent, \<^verbatim>\<open>check_model\<close> raises \<^verbatim>\<open>ValueError\<close>, so does the parse of the feed, and
  a fetch attempt that received the document fails: it is logged, followed by the
  sleep, and the loop goes on with the remaining attempts.
\<close>

theorem check_model_version:
  "(\<forall>d'. check_model d = Inr d' \<longrightarrow>
      d' = d \<and> (data_version d = Some (JInt 3) \<or> data_version d = Some (JFloat 3))) \<and>
   (\<forall>ms. model_validate_json (Feed d) = Inr ms \<longrightarrow>
      version ms = 3 \<and> (data_version d = Some (JInt 3) \<or> data_version d = Some (JFloat 3))) \<and>
   (data_version d \<noteq> Some (JInt 3) \<and> data_version d \<noteq> Some (JFloat 3) \<longrightarrow>
      check_model d = Inl ValueError \<and>
      model_validate_json (Feed d) = Inl ValueError \<and>
      parse_remote_mirror_list (Feed d) = Inl ValueError \<and>
      (fetch_data_from_url w (fetches h) = Inr (Feed d) \<longrightarrow>
         remote_attempts w (attempt_nr # rest) h =
         remote_attempts w rest
           (h\<lparr>fetches := Suc (fetches h),
              events := events h @ [Fetch, Debug_error ValueError, Sleep (attempt_nr + 1)]\<rparr>)))"
proof (intro conjI allI impI)
  fix d' assume "check_model d = Inr d'"
  then show "d' = d" "data_version d = Some (JInt 3) \<or> data_version d = Some (JFloat 3)"
    by (simp_all add: check_model_Inr)
next
  fix ms assume ok: "model_validate_json (Feed d) = Inr ms"
  then show "version ms = 3"
    by (auto simp: model_validate_json_def split: sum.splits)
  from ok obtain d' where "check_model d = Inr d'"
    by (auto simp: model_validate_json_def split: sum.splits)
  then show "data_version d = Some (JInt 3) \<or> data_version d = Some (JFloat 3)"
    by (simp add: check_model_Inr)
next
  assume other: "data_version d \<noteq> Some (JInt 3) \<and> data_version d \<noteq> Some (JFloat 3)"
  then show chk: "check_model d = Inl ValueError"
    by (simp add: check_model_Inl)
  then show val: "model_validate_json (Feed d) = Inl ValueError"
    by (simp add: model_validate_json_def)
  then show parse: "parse_remote_mirror_list (Feed d) = Inl ValueError"
    by (simp add: parse_remote_mirror_list_def)
  assume "fetch_data_from_url w (fetches h) = Inr (Feed d)"
  with parse show "remote_attempts w (attempt_nr # rest) h =
         remote_attempts w rest
           (h\<lparr>fetches := Suc (fetches h),
              events := events h @ [Fetch, Debug_error ValueError, Sleep (attempt_nr + 1)]\<rparr>)"
    by (simp add: Let_def fetch_attempt_def)
qed


theorem check_model_version_witness:
  "check_model
     \<lparr>data_version = Some (JStr ''3''), data_cutoff = 86400, data_last_check = ''2024-01-01T00:00:00Z'',
      data_num_checks = 1, data_urls = []\<rparr> = Inl ValueError \<and>
   parse_remote_mirror_list
     (Feed \<lparr>data_version = Some (JStr ''3''), data_cutoff = 86400, data_last_check = ''2024-01-01T00:00:00Z'',
      data_num_checks = 1, data_urls = []\<rparr>) = Inl ValueError \<and>
   check_model
     \<lparr>data_version = None, data_cutoff = 86400, data_last_check = ''2024-01-01T00:00:00Z'',
      data_num_checks = 1, data_urls = []\<rparr> = Inl ValueError"
  using check_model_version
    [of "\<lparr>data_version = Some (JStr ''3''), data_cutoff = 86400, data_last_check = ''2024-01-01T00:00:00Z'',
      data_num_checks = 1, data_urls = []\<rparr>"]
    check_model_version
    [of "\<lparr>data_version = None, data_cutoff = 86400, data_last_check = ''2024-01-01T00:00:00Z'',
      data_num_checks = 1, data_urls = []\<rparr>"]
  by simp

subsection \<open>A region that is not loaded\<close>

text \<open>
  C10. With a loaded mapping, \<^verbatim>\<open>get_status_by_region\<close> on a name that is no key
  of the mapping raises \<^verbatim>\<open>KeyError\<close>; nothing is probed and the handler is as
  before.
\<close>

theorem get_status_by_region_unknown:
  "status_mappings h = Some m \<Longrightarrow> region \<notin> fst ` set m \<Longrightarrow>
   get_status_by_region w h region speed_sort = (Inl KeyError, h)"
proof -
  assume loaded: "status_mappings h = Some m" and unknown: "region \<notin> fst ` set m"
  from unknown have "map_of m region = None"
    by (simp add: map_of_eq_None_iff)
  with loaded show ?thesis
    by (simp add: get_status_by_region_def mappings_of_def)
qed

theorem get_status_by_region_unknown_witness:
  "get_status_by_region
     \<lparr>offline = True, fetch_data_from_url = (\<lambda>k. Inl OSError), local_mirrorlist = Inl OSError,
      net = (\<lambda>k u. URLError)\<rparr>
     \<lparr>status_mappings = Some [(''Germany'', [])], events = [], fetches = 0, downloads = 0\<rparr>
     ''Atlantis'' True =
   (Inl KeyError, \<lparr>status_mappings = Some [(''Germany'', [])], events = [], fetches = 0, downloads = 0\<rparr>)"
  using get_status_by_region_unknown
    [of "\<lparr>status_mappings = Some [(''Germany'', [])], events = [], fetches = 0, downloads = 0\<rparr>"
        "[(''Germany'', [])]" "''Atlantis''"
        "\<lparr>offline = True, fetch_data_from_url = (\<lambda>k. Inl OSError), local_mirrorlist = Inl OSError,
          net = (\<lambda>k u. URLError)\<rparr>" True]
  by simp

subsection \<open>The speed probe: retries and memoization\<close>

lemma speed_loop_done: "speed_loop nt u 3 3 k sp = (Inr sp, k)"
  by (simp add: speed_loop.simps)

lemma speed_loop_Some: "speed_loop nt u n r k (Some x) = (Inr (Some x), k)"
  by (simp add: speed_loop.simps)

lemma speed_loop_raises:
  "Request u = Inl err \<Longrightarrow> speed_loop nt u 3 0 k None = (Inl err, k)"
  by (simp add: speed_loop.simps)

lemma speed_loop_3:
  assumes "Request u = Inr req"
  shows "speed_loop nt u 3 0 k None =
     (case after_attempt (nt k u) of
        Some x \<Rightarrow> (Inr (Some x), Suc k)
      | None \<Rightarrow>
          (case after_attempt (nt (Suc k) u) of
             Some x \<Rightarrow> (Inr (Some x), Suc (Suc k))
           | None \<Rightarrow> (Inr (after_attempt (nt (Suc (Suc k)) u)), Suc (Suc (Suc k)))))"
proof -
  have 2: "speed_loop nt u 3 2 j None = (Inr (after_attempt (nt j u)), Suc j)" for j
    by (subst speed_loop.simps) (simp add: assms speed_loop_done)
  have 1: "speed_loop nt u 3 1 j None =
      (case after_attempt (nt j u) of Some x \<Rightarrow> (Inr (Some x), Suc j)
       | None \<Rightarrow> (Inr (after_attempt (nt (Suc j) u)), Suc (Suc j)))" for j
    by (subst speed_loop.simps) (simp add: assms 2 speed_loop_Some split: option.splits)
  show ?thesis
    by (subst speed_loop.simps) (simp add: assms 1 speed_loop_Some split: option.splits)
qed

lemma after_attempt_None: "after_attempt d = None \<longleftrightarrow> d = IncompleteRead \<or> d = ConnectionResetError"
  by (cases d) (auto simp: after_attempt_def split: option.splits)

lemma after_attempt_permanent: "d = URLError \<or> d = OtherException \<Longrightarrow> after_attempt d = Some 0"
  by (auto simp: after_attempt_def)

lemma speed_memo: "priv_speed e = Some v \<Longrightarrow> speed nt k e = (Inr v, e, k)"
  by (simp add: speed_def)

lemma speed_unset:
  assumes "priv_speedtest_retries e = None \<or> priv_speedtest_retries e = Some 3"
    and "priv_speed e = None"
  shows "speed nt k e =
     (case speed_loop nt (url e @ ''core/os/x86_64/core.db'') 3 0 k None of
        (Inl err, k') \<Rightarrow> (Inl err, e\<lparr>priv_speedtest_retries := Some 3\<rparr>, k')
      | (Inr sp, k') \<Rightarrow>
          (Inr (case sp of None \<Rightarrow> 0 | Some x \<Rightarrow> x),
           e\<lparr>priv_speed := Some (case sp of None \<Rightarrow> 0 | Some x \<Rightarrow> x),
             priv_speedtest_retries := Some 3\<rparr>, k'))"
  using assms by (auto simp: speed_def Let_def split: prod.splits sum.splits)

lemma speed_raises:
  assumes "priv_speedtest_retries e = None \<or> priv_speedtest_retries e = Some 3"
    and "priv_speed e = None"
    and "Request (url e @ ''core/os/x86_64/core.db'') = Inl err"
  shows "speed nt k e = (Inl err, e\<lparr>priv_speedtest_retries := Some 3\<rparr>, k)"
  using assms by (simp add: speed_unset speed_loop_raises)

text \<open>
  C5. Reading \<^verbatim>\<open>speed\<close> of an entry whose retry budget is unset or 3 (the only values
  the code stores: unset at construction, 3 at the first read) makes between no and
  three download attempts, \<open>k\<close> to \<open>k'\<close>.

  When the speed is stored already, or the constructor of the request accepts the url of
  the download, the read returns a value \<open>v\<close>: it is stored in \<^verbatim>\<open>_speed\<close>, which is
  not left unset; any later read, on any network, returns that value and makes no
  attempt. An attempt that ends in \<^verbatim>\<open>URLError\<close> or in another exception sets the speed
  to 0 and is the last one. An attempt that ends in \<^verbatim>\<open>IncompleteRead\<close> or
  \<^verbatim>\<open>ConnectionResetError\<close> sets nothing: the next attempt follows while the budget
  lasts, and after the third the speed is 0. Three such errors in a row give speed 0
  after exactly three attempts.

  When the speed is not stored and the constructor of the request raises (a url without
  a type, for one), the read raises that exception: no attempt is made, \<^verbatim>\<open>_speed\<close>
  stays unset, and every later read raises again. Here the code leaves what the claim
  says of a malformed url.
\<close>

theorem speed_attempts:
  assumes retries: "priv_speedtest_retries e = None \<or> priv_speedtest_retries e = Some 3"
    and result: "speed nt k e = (r, e', k')"
  shows "k \<le> k' \<and> k' \<le> k + 3 \<and>
     (priv_speedtest_retries e' = None \<or> priv_speedtest_retries e' = Some 3) \<and>
     (priv_speed e \<noteq> None \<or> \<not> isl (Request (url e @ ''core/os/x86_64/core.db'')) \<longrightarrow>
        (\<exists>v. r = Inr v \<and>
           priv_speed e' = Some v \<and>
           (\<forall>nt' k2. speed nt' k2 e' = (Inr v, e', k2)) \<and>
           (\<forall>j. k \<le> j \<and> j < k' \<and>
                (nt j (url e @ ''core/os/x86_64/core.db'') = URLError \<or>
                 nt j (url e @ ''core/os/x86_64/core.db'') = OtherException) \<longrightarrow>
                v = 0 \<and> k' = Suc j) \<and>
           (\<forall>j. k \<le> j \<and> j < k' \<and>
                (nt j (url e @ ''core/os/x86_64/core.db'') = IncompleteRead \<or>
                 nt j (url e @ ''core/os/x86_64/core.db'') = ConnectionResetError) \<longrightarrow>
                (if Suc j < k + 3 then Suc j < k' else v = 0)) \<and>
           (priv_speed e = None \<and>
            (\<forall>j < 3. nt (k + j) (url e @ ''core/os/x86_64/core.db'') = IncompleteRead \<or>
                     nt (k + j) (url e @ ''core/os/x86_64/core.db'') = ConnectionResetError) \<longrightarrow>
            v = 0 \<and> k' = k + 3))) \<and>
     (\<forall>err. priv_speed e = None \<and> Request (url e @ ''core/os/x86_64/core.db'') = Inl err \<longrightarrow>
        r = Inl err \<and> k' = k \<and> priv_speed e' = None \<and> url e' = url e \<and>
        (\<forall>nt' k2. speed nt' k2 e' = (Inl err, e', k2)))"
proof (cases "priv_speed e")
  case (Some x)
  with result have "r = Inr x" "e' = e" "k' = k"
    by (simp_all add: speed_memo)
  with Some retries show ?thesis
    by (simp add: speed_memo)
next
  case None
  let ?u = "url e @ ''core/os/x86_64/core.db''"
  show ?thesis
  proof (cases "Request ?u")
    case (Inl err)
    from speed_raises[OF retries None Inl, of nt k] result
    have r: "r = Inl err" "e' = e\<lparr>priv_speedtest_retries := Some 3\<rparr>" "k' = k"
      by simp_all
    have "speed nt' k2 e' = (Inl err, e', k2)" for nt' k2
      using speed_raises[of e' err nt' k2] None Inl by (simp add: r)
    with r None Inl show ?thesis
      by simp
  next
    case (Inr req)
    let ?a = "\<lambda>j. after_attempt (nt j ?u)"
    let ?e = "\<lambda>x. e\<lparr>priv_speed := Some x, priv_speedtest_retries := Some 3\<rparr>"
    have memo: "speed nt' k2 (?e x) = (Inr x, ?e x, k2)" for nt' k2 x
      by (simp add: speed_memo)
    have perm: "nt j ?u = URLError \<or> nt j ?u = OtherException \<Longrightarrow> ?a j = Some 0" for j
      by (rule after_attempt_permanent)
    have trans: "nt j ?u = IncompleteRead \<or> nt j ?u = ConnectionResetError \<Longrightarrow> ?a j = None" for j
      by (simp add: after_attempt_None)
    have three: "j < 3 \<longleftrightarrow> j = 0 \<or> j = 1 \<or> j = 2" for j :: nat
      by auto
    have last: "\<not> j < i \<Longrightarrow> j < Suc i \<Longrightarrow> j = i" for i j :: nat
      by auto
    from result None retries
    consider
        (first) x where "?a k = Some x" "r = Inr x" "e' = ?e x" "k' = Suc k"
      | (second) x where "?a k = None" "?a (Suc k) = Some x" "r = Inr x" "e' = ?e x" "k' = Suc (Suc k)"
      | (third) x where "?a k = None" "?a (Suc k) = None" "?a (Suc (Suc k)) = Some x"
          "r = Inr x" "e' = ?e x" "k' = Suc (Suc (Suc k))"
      | (none) "?a k = None" "?a (Suc k) = None" "?a (Suc (Suc k)) = None"
          "r = Inr 0" "e' = ?e 0" "k' = Suc (Suc (Suc k))"
      by (auto simp: speed_unset speed_loop_3[OF Inr] split: option.splits)
    then show ?thesis
    proof cases
      case first
      have j: "k \<le> j \<Longrightarrow> j < Suc k \<Longrightarrow> j = k" for j
        by auto
      show ?thesis
        using first None Inr perm[of k] trans[of k] by (auto simp: memo three dest: j last)
    next
      case second
      have j: "k \<le> j \<Longrightarrow> j < Suc (Suc k) \<Longrightarrow> j = k \<or> j = Suc k" for j
        by auto
      show ?thesis
        using second None Inr perm[of k] trans[of k] perm[of "Suc k"] trans[of "Suc k"]
        by (auto simp: memo three dest: j last)
    next
      case third
      have j: "k \<le> j \<Longrightarrow> j < Suc (Suc (Suc k)) \<Longrightarrow> j = k \<or> j = Suc k \<or> j = Suc (Suc k)" for j
        by auto
      show ?thesis
        using third None Inr perm[of k] trans[of k] perm[of "Suc k"] trans[of "Suc k"]
          perm[of "Suc (Suc k)"] trans[of "Suc (Suc k)"]
        by (auto simp: memo three numeral_2_eq_2 dest: j last)
    next
      case none
      have j: "k \<le> j \<Longrightarrow> j < Suc (Suc (Suc k)) \<Longrightarrow> j = k \<or> j = Suc k \<or> j = Suc (Suc k)" for j
        by auto
      show ?thesis
        using none None Inr perm[of k] trans[of k] perm[of "Suc k"] trans[of "Suc k"]
          perm[of "Suc (Suc k)"] trans[of "Suc (Suc k)"]
        by (auto simp: memo three numeral_2_eq_2 dest: j last)
    qed
  qed
qed

lemma new_entry_unset:
  "new_entry e = Inr e' \<Longrightarrow> priv_speed e' = None \<and> priv_speedtest_retries e' = None"
  by (auto simp: new_entry_def debug_output_def split: sum.splits prod.splits option.splits)

theorem speed_attempts_witness:
  "speed (\<lambda>k u. if k < 2 then IncompleteRead else ConnectionResetError) 0
     \<lparr>url = ''https://mirror.example/'', protocol = ''https'', active = True, country = ''Germany'',
      country_code = ''DE'', isos = True, ipv4 = True, ipv6 = False, details = ''up'',
      delay = None, last_sync = Some ''2024-01-01T00:00:00Z'', duration_avg = None,
      duration_stddev = None, completion_pct = None, score = Some 1, priv_latency = None,
      priv_speed = None, priv_hostname = Some ''mirror.example'', priv_port = None,
      priv_speedtest_retries = None\<rparr> =
   (Inr 0,
    \<lparr>url = ''https://mirror.example/'', protocol = ''https'', active = True, country = ''Germany'',
      country_code = ''DE'', isos = True, ipv4 = True, ipv6 = False, details = ''up'',
      delay = None, last_sync = Some ''2024-01-01T00:00:00Z'', duration_avg = None,
      duration_stddev = None, completion_pct = None, score = Some 1, priv_latency = None,
      priv_speed = Some 0, priv_hostname = Some ''mirror.example'', priv_port = None,
      priv_speedtest_retries = Some 3\<rparr>,
    3) \<and>
   speed (\<lambda>k u. Downloaded 1000 (Some 1)) 0
     \<lparr>url = ''mirror.example/'', protocol = '''', active = True, country = ''Local'',
      country_code = ''WW'', isos = True, ipv4 = True, ipv6 = True,
      details = ''Locally defined mirror'', delay = None, last_sync = None, duration_avg = None,
      duration_stddev = None, completion_pct = None, score = None, priv_latency = None,
      priv_speed = None, priv_hostname = Some '''', priv_port = None,
      priv_speedtest_retries = None\<rparr> =
   (Inl ValueError,
    \<lparr>url = ''mirror.example/'', protocol = '''', active = True, country = ''Local'',
      country_code = ''WW'', isos = True, ipv4 = True, ipv6 = True,
      details = ''Locally defined mirror'', delay = None, last_sync = None, duration_avg = None,
      duration_stddev = None, completion_pct = None, score = None, priv_latency = None,
      priv_speed = None, priv_hostname = Some '''', priv_port = None,
      priv_speedtest_retries = Some 3\<rparr>,
    0)"
proof -
  let ?nt = "\<lambda>(k :: nat) (u :: string). if k < 2 then IncompleteRead else ConnectionResetError"
  let ?e = "\<lparr>url = ''https://mirror.example/'', protocol = ''https'', active = True, country = ''Germany'',
      country_code = ''DE'', isos = True, ipv4 = True, ipv6 = False, details = ''up'',
      delay = None, last_sync = Some ''2024-01-01T00:00:00Z'', duration_avg = None,
      duration_stddev = None, completion_pct = None, score = Some 1, priv_latency = None,
      priv_speed = None, priv_hostname = Some ''mirror.example'', priv_port = None,
      priv_speedtest_retries = None\<rparr>"
  let ?nt2 = "\<lambda>(k :: nat) (u :: string). Downloaded 1000 (Some 1)"
  let ?e2 = "\<lparr>url = ''mirror.example/'', protocol = '''', active = True, country = ''Local'',
      country_code = ''WW'', isos = True, ipv4 = True, ipv6 = True,
      details = ''Locally defined mirror'', delay = None, last_sync = None, duration_avg = None,
      duration_stddev = None, completion_pct = None, score = None, priv_latency = None,
      priv_speed = None, priv_hostname = Some '''', priv_port = None,
      priv_speedtest_retries = None\<rparr>"
  have accepted: "\<not> isl (Request (url ?e @ ''core/os/x86_64/core.db''))"
    by code_simp
  have rejected: "Request (url ?e2 @ ''core/os/x86_64/core.db'') = Inl ValueError"
    by code_simp
  obtain r e' k' where r: "speed ?nt 0 ?e = (r, e', k')"
    by (cases "speed ?nt 0 ?e") auto
  have e': "e' = ?e\<lparr>priv_speedtest_retries := Some 3, priv_speed := priv_speed e'\<rparr>"
    using r by (auto simp: speed_def Let_def split: prod.splits sum.splits)
  have "priv_speedtest_retries ?e = None \<or> priv_speedtest_retries ?e = Some 3"
    by simp
  from speed_attempts[OF this r] accepted obtain v where v: "r = Inr v" "priv_speed e' = Some v"
    and transient: "priv_speed ?e = None \<and>
            (\<forall>j < 3. ?nt (0 + j) (url ?e @ ''core/os/x86_64/core.db'') = IncompleteRead \<or>
                     ?nt (0 + j) (url ?e @ ''core/os/x86_64/core.db'') = ConnectionResetError) \<longrightarrow>
            v = 0 \<and> k' = 0 + 3"
    by blast
  from transient have "v = 0" "k' = 3"
    by simp_all
  with v have "r = Inr 0" "k' = 3" "priv_speed e' = Some 0"
    by simp_all
  with e' r have first: "speed ?nt 0 ?e = (Inr 0, ?e\<lparr>priv_speedtest_retries := Some 3, priv_speed := Some 0\<rparr>, 3)"
    by simp
  obtain r2 e2' k2' where r2: "speed ?nt2 0 ?e2 = (r2, e2', k2')"
    by (cases "speed ?nt2 0 ?e2") auto
  have e2': "e2' = ?e2\<lparr>priv_speedtest_retries := Some 3, priv_speed := priv_speed e2'\<rparr>"
    using r2 by (auto simp: speed_def Let_def split: prod.splits sum.splits)
  have "priv_speedtest_retries ?e2 = None \<or> priv_speedtest_retries ?e2 = Some 3"
    by simp
  from speed_attempts[OF this r2] rejected have "r2 = Inl ValueError" "k2' = 0" "priv_speed e2' = None"
    by simp_all
  with e2' r2 have second: "speed ?nt2 0 ?e2 = (Inl ValueError, ?e2\<lparr>priv_speedtest_retries := Some 3\<rparr>, 0)"
    by simp
  from first second show ?thesis
    by simp
qed

text \<open>
  The entry of the second read is the one the local list gives for a server line
  without a type.
\<close>

lemma speed_unknown_url_type:
  "parse_locale_mirrors ''Server = mirror.example/$repo/os/$arch'' =
   Inr [(''Local'',
         [\<lparr>url = ''mirror.example/'', protocol = '''', active = True, country = ''Local'',
           country_code = ''WW'', isos = True, ipv4 = True, ipv6 = True,
           details = ''Locally defined mirror'', delay = None, last_sync = None,
           duration_avg = None, duration_stddev = None, completion_pct = None, score = None,
           priv_latency = None, priv_speed = None, priv_hostname = Some '''', priv_port = None,
           priv_speedtest_retries = None\<rparr>])] \<and>
   Request ''mirror.example/core/os/x86_64/core.db'' = Inl ValueError"
  by code_simp


subsection \<open>The remote load: three attempts, then the local list\<close>

lemma range_3: "[0..<3] = [0, 1, 2]"
  by (simp add: upt_rec)

lemma load_local_mirrors_events:
  "events (snd (load_local_mirrors w h)) = events h @ [Open_local]"
  by (simp add: load_local_mirrors_def Let_def split: sum.splits)

lemma load_local_mirrors_raised:
  "fst (load_local_mirrors w h) \<noteq> None \<longleftrightarrow>
     (case local_mirrorlist w of Inl err \<Rightarrow> True | Inr text \<Rightarrow> isl (parse_locale_mirrors text))"
  by (simp add: load_local_mirrors_def Let_def split: sum.splits)

text \<open>
  C4. Not offline, \<^verbatim>\<open>load_mirrors\<close> adds to the events of the process exactly the
  list \<open>new\<close>: a fetch; when that attempt (fetch and parse) raised, the log line with
  the exception and a sleep of 1 second, then the second fetch; when that raised, the log
  line and a sleep of 2 seconds, then the third fetch; when that raised too, the log
  line, a sleep of 3 seconds, the fallback line and one opening of the local mirror
  list. So there are at most three fetches, the local list is opened once when all
  three attempts failed and not at all otherwise, and an exception leaves
  \<^verbatim>\<open>load_mirrors\<close> only when all three attempts failed and the local load raised.
\<close>

theorem load_mirrors_retries:
  assumes online: "\<not> offline w"
    and result: "load_mirrors w h = (raised, h')"
  shows "\<exists>new.
     events h' = events h @ new \<and>
     new =
       (case fetch_attempt w (fetches h) of
          Inr m \<Rightarrow> [Fetch]
        | Inl e0 \<Rightarrow>
            [Fetch, Debug_error e0, Sleep 1] @
            (case fetch_attempt w (fetches h + 1) of
               Inr m \<Rightarrow> [Fetch]
             | Inl e1 \<Rightarrow>
                 [Fetch, Debug_error e1, Sleep 2] @
                 (case fetch_attempt w (fetches h + 2) of
                    Inr m \<Rightarrow> [Fetch]
                  | Inl e2 \<Rightarrow> [Fetch, Debug_error e2, Sleep 3, Debug_fallback, Open_local]))) \<and>
     length (filter (\<lambda>e. e = Fetch) new) \<le> 3 \<and>
     length (filter (\<lambda>e. e = Open_local) new) =
       (if isl (fetch_attempt w (fetches h)) \<and> isl (fetch_attempt w (fetches h + 1)) \<and>
           isl (fetch_attempt w (fetches h + 2)) then 1 else 0) \<and>
     (raised \<noteq> None \<longrightarrow>
        isl (fetch_attempt w (fetches h)) \<and> isl (fetch_attempt w (fetches h + 1)) \<and>
        isl (fetch_attempt w (fetches h + 2)) \<and>
        (case local_mirrorlist w of Inl err \<Rightarrow> True | Inr text \<Rightarrow> isl (parse_locale_mirrors text)))"
proof -
  let ?a = "\<lambda>i. fetch_attempt w (fetches h + i)"
  consider (first) m where "?a 0 = Inr m"
    | (second) e0 m where "?a 0 = Inl e0" "?a 1 = Inr m"
    | (third) e0 e1 m where "?a 0 = Inl e0" "?a 1 = Inl e1" "?a 2 = Inr m"
    | (none) e0 e1 e2 where "?a 0 = Inl e0" "?a 1 = Inl e1" "?a 2 = Inl e2"
    by (cases "?a 0"; cases "?a 1"; cases "?a 2") auto
  then show ?thesis
  proof cases
    case first
    with online result show ?thesis
      by (auto simp: load_mirrors_def load_remote_mirrors_def range_3 Let_def)
  next
    case second
    with online result show ?thesis
      by (auto simp: load_mirrors_def load_remote_mirrors_def range_3 Let_def)
  next
    case third
    with online result show ?thesis
      by (auto simp: load_mirrors_def load_remote_mirrors_def range_3 Let_def numeral_2_eq_2)
  next
    case none
    let ?h3 = "h\<lparr>fetches := Suc (Suc (Suc (fetches h))),
        events := events h @ [Fetch, Debug_error e0, Sleep 1, Fetch, Debug_error e1, Sleep 2,
                   Fetch, Debug_error e2, Sleep 3, Debug_fallback]\<rparr>"
    from none online have "load_mirrors w h = load_local_mirrors w ?h3"
      by (simp add: load_mirrors_def load_remote_mirrors_def range_3 Let_def numeral_2_eq_2 numeral_3_eq_3)
    with result have r: "load_local_mirrors w ?h3 = (raised, h')"
      by simp
    from load_local_mirrors_events[of w ?h3] load_local_mirrors_raised[of w ?h3] r none
    show ?thesis
      by (auto simp: numeral_2_eq_2 numeral_3_eq_3)
  qed
qed

theorem load_mirrors_retries_witness:
  "events (snd (load_mirrors
     \<lparr>offline = False, fetch_data_from_url = (\<lambda>k. if k = 1 then Inr Malformed else Inl OSError),
      local_mirrorlist = Inl OSError, net = (\<lambda>k u. URLError)\<rparr>
     \<lparr>status_mappings = None, events = [], fetches = 0, downloads = 0\<rparr>)) =
   [Fetch, Debug_error OSError, Sleep 1, Fetch, Debug_error ValueError, Sleep 2,
    Fetch, Debug_error OSError, Sleep 3, Debug_fallback, Open_local]"
proof -
  let ?w = "\<lparr>offline = False, fetch_data_from_url = (\<lambda>k. if k = 1 then Inr Malformed else Inl OSError),
      local_mirrorlist = Inl OSError, net = (\<lambda>(k :: nat) (u :: string). URLError)\<rparr>"
  let ?h = "\<lparr>status_mappings = None, events = [], fetches = 0, downloads = 0\<rparr>"
  obtain raised h' where r: "load_mirrors ?w ?h = (raised, h')"
    by (cases "load_mirrors ?w ?h") auto
  have "\<not> offline ?w"
    by simp
  from load_mirrors_retries[OF this r] r show ?thesis
    by (simp add: fetch_attempt_def parse_remote_mirror_list_def model_validate_json_def)
qed

subsection \<open>Parsing the persisted configuration\<close>

lemma fold_merge_repo:
  "\<exists>new. fold merge_repo bc base = base @ new \<and> distinct new \<and> set new = set bc - set base"
proof (induction bc arbitrary: base)
  case Nil
  then show ?case by simp
next
  case (Cons r bc)
  show ?case
  proof (cases "r \<in> set base")
    case True
    with Cons.IH[of base] show ?thesis
      by (auto simp: merge_repo_def)
  next
    case False
    from Cons.IH[of "base @ [r]"] obtain new where
      new: "fold merge_repo bc (base @ [r]) = (base @ [r]) @ new" "distinct new"
        "set new = set bc - set (base @ [r])"
      by blast
    with False have "fold merge_repo (r # bc) base = base @ (r # new)"
      "distinct (r # new)" "set (r # new) = set (r # bc) - set base"
      by (auto simp: merge_repo_def)
    then show ?thesis by blast
  qed
qed

lemma case_sum_Inr_iff:
  "(case m of Inl err \<Rightarrow> Inl err | Inr x \<Rightarrow> f x) = Inr y \<longleftrightarrow> (\<exists>x. m = Inr x \<and> f x = Inr y)"
  by (cases m) auto

lemma parse_args_Inr:
  assumes "MirrorConfiguration_parse_args repo_of args bc = Inr c"
  shows "\<exists>legacy base.
     (case arg_custom_repositories args of None \<Rightarrow> Inr legacy | Some rs \<Rightarrow> CustomRepository_parse_args rs)
        = Inr (custom_repositories c) \<and>
     (case arg_optional_repositories args of None \<Rightarrow> Inr []
      | Some rs \<Rightarrow> traverse (\<lambda>r. case repo_of r of None \<Rightarrow> Inl ValueError | Some x \<Rightarrow> Inr x) rs) = Inr base \<and>
     optional_repositories c = fold merge_repo bc base"
proof -
  from assms obtain servers legacy repos optional rc where
    "(case arg_custom_repositories args of None \<Rightarrow> Inr legacy | Some rs \<Rightarrow> CustomRepository_parse_args rs)
        = Inr repos"
    "(case arg_optional_repositories args of None \<Rightarrow> Inr []
      | Some rs \<Rightarrow> traverse (\<lambda>r. case repo_of r of None \<Rightarrow> Inl ValueError | Some x \<Rightarrow> Inr x) rs) = Inr optional"
    "c = \<lparr>mirror_regions = map (\<lambda>(region, urls). \<lparr>region_name = region, region_urls = urls\<rparr>)
                      (get_default (arg_mirror_regions args) []),
               custom_servers = servers,
               optional_repositories = fold merge_repo bc optional,
               custom_repositories = repos,
               reflector = rc\<rparr>"
    unfolding MirrorConfiguration_parse_args_def Let_def case_sum_Inr_iff
    by (elim exE conjE) (simp only: sum.inject[symmetric], blast)
  then show ?thesis
    by auto
qed

text \<open>
  C6. Whenever \<^verbatim>\<open>parse_args\<close> returns a configuration: if the key
  \<^verbatim>\<open>custom_repositories\<close> is present, the custom repositories are the parse of its
  value, whether \<^verbatim>\<open>custom_mirrors\<close> is present or not; and the optional
  repositories are those parsed from the document (\<open>base\<close>), followed by the
  elements of the caller's list that \<open>base\<close> does not have, each of them once.
\<close>

theorem parse_args_precedence_and_merge:
  assumes "MirrorConfiguration_parse_args repo_of args bc = Inr c"
  shows "(\<forall>rs. arg_custom_repositories args = Some rs \<longrightarrow>
            CustomRepository_parse_args rs = Inr (custom_repositories c)) \<and>
     (\<exists>base new.
        (case arg_optional_repositories args of None \<Rightarrow> Inr []
         | Some rs \<Rightarrow> traverse (\<lambda>r. case repo_of r of None \<Rightarrow> Inl ValueError | Some x \<Rightarrow> Inr x) rs)
           = Inr base \<and>
        optional_repositories c = base @ new \<and> distinct new \<and> set new = set bc - set base)"
proof -
  from parse_args_Inr[OF assms] obtain legacy base where
    repos: "(case arg_custom_repositories args of None \<Rightarrow> Inr legacy
             | Some rs \<Rightarrow> CustomRepository_parse_args rs) = Inr (custom_repositories c)"
    and base: "(case arg_optional_repositories args of None \<Rightarrow> Inr []
      | Some rs \<Rightarrow> traverse (\<lambda>r. case repo_of r of None \<Rightarrow> Inl ValueError | Some x \<Rightarrow> Inr x) rs) = Inr base"
    and opt: "optional_repositories c = fold merge_repo bc base"
    by blast
  from fold_merge_repo[of bc base] opt obtain new where
    "optional_repositories c = base @ new" "distinct new" "set new = set bc - set base"
    by auto
  with base repos show ?thesis
    by auto
qed

lemmas parse_defs =
  MirrorConfiguration_parse_args_def CustomRepository_parse_args_def parse_repository_def
  CustomServer_parse_args_def parse_server_def getitem_def SignCheck_of_def SignOption_of_def
  ReflectorConfiguration_parse_args_def ReflectorProtocol_of_def ReflectorSortOrder_of_def
  get_default_def merge_repo_def default_reflector_def

theorem parse_args_precedence_and_merge_witness:
  "MirrorConfiguration_parse_args Some
     \<lparr>arg_mirror_regions = None, arg_custom_servers = None,
      arg_custom_mirrors =
        Some [[(''name'', ''old''), (''url'', ''https://old/''), (''sign_check'', ''Never''),
               (''sign_option'', ''TrustAll'')]],
      arg_custom_repositories =
        Some [[(''name'', ''extra''), (''url'', ''https://x/''), (''sign_check'', ''Required''),
               (''sign_option'', ''TrustedOnly'')]],
      arg_optional_repositories = Some [''multilib''],
      arg_reflector = None\<rparr>
     [''multilib'', ''testing'', ''testing''] =
   Inr \<lparr>mirror_regions = [], custom_servers = [],
        optional_repositories = [''multilib'', ''testing''],
        custom_repositories =
          [\<lparr>name = ''extra'', repo_url = ''https://x/'', sign_check = Required,
            sign_option = TrustedOnly\<rparr>],
        reflector = default_reflector\<rparr>"
proof -
  let ?args = "\<lparr>arg_mirror_regions = None, arg_custom_servers = None,
      arg_custom_mirrors =
        Some [[(''name'', ''old''), (''url'', ''https://old/''), (''sign_check'', ''Never''),
               (''sign_option'', ''TrustAll'')]],
      arg_custom_repositories =
        Some [[(''name'', ''extra''), (''url'', ''https://x/''), (''sign_check'', ''Required''),
               (''sign_option'', ''TrustedOnly'')]],
      arg_optional_repositories = Some [''multilib''],
      arg_reflector = None\<rparr>"
  let ?bc = "[''multilib'', ''testing'', ''testing'']"
  obtain c where c: "MirrorConfiguration_parse_args Some ?args ?bc = Inr c"
    by (simp add: parse_defs)
  from parse_args_precedence_and_merge[OF c]
  have "CustomRepository_parse_args
          [[(''name'', ''extra''), (''url'', ''https://x/''), (''sign_check'', ''Required''),
            (''sign_option'', ''TrustedOnly'')]] = Inr (custom_repositories c)"
    by simp
  then have repos: "custom_repositories c =
      [\<lparr>name = ''extra'', repo_url = ''https://x/'', sign_check = Required,
        sign_option = TrustedOnly\<rparr>]"
    by (simp add: parse_defs)
  from c have "mirror_regions c = []" "custom_servers c = []"
    "optional_repositories c = [''multilib'', ''testing'']" "reflector c = default_reflector"
    by (auto simp: parse_defs)
  with repos have "c = \<lparr>mirror_regions = [], custom_servers = [],
        optional_repositories = [''multilib'', ''testing''],
        custom_repositories =
          [\<lparr>name = ''extra'', repo_url = ''https://x/'', sign_check = Required,
            sign_option = TrustedOnly\<rparr>],
        reflector = default_reflector\<rparr>"
    by (cases c) simp
  with c show ?thesis
    by simp
qed

subsection \<open>The round trip through the persisted form\<close>

lemma traverse_map_Inr:
  "(\<And>x. x \<in> set xs \<Longrightarrow> f (g x) = Inr x) \<Longrightarrow> traverse f (map g xs) = Inr xs"
  by (induction xs) auto

lemma SignCheck_roundtrip: "SignCheck_of (SignCheck_value x) = Inr x"
  by (cases x) (simp_all add: SignCheck_of_def)

lemma SignOption_roundtrip: "SignOption_of (SignOption_value x) = Inr x"
  by (cases x) (simp_all add: SignOption_of_def)

lemma ReflectorProtocol_roundtrip: "ReflectorProtocol_of (ReflectorProtocol_value x) = Inr x"
  by (cases x) (simp_all add: ReflectorProtocol_of_def)

lemma ReflectorSortOrder_roundtrip: "ReflectorSortOrder_of (ReflectorSortOrder_value x) = Inr x"
  by (cases x) (simp_all add: ReflectorSortOrder_of_def)

lemma CustomRepository_roundtrip: "parse_repository (CustomRepository_json c) = Inr c"
  by (simp add: parse_repository_def CustomRepository_json_def getitem_def
      SignCheck_roundtrip SignOption_roundtrip)

lemma CustomRepository_list_roundtrip:
  "CustomRepository_parse_args (map CustomRepository_json cs) = Inr cs"
  by (simp add: CustomRepository_parse_args_def traverse_map_Inr CustomRepository_roundtrip)

lemma ReflectorConfiguration_roundtrip:
  "ReflectorConfiguration_parse_args (ReflectorConfiguration_json c) = Inr c"
  by (simp add: ReflectorConfiguration_parse_args_def ReflectorConfiguration_json_def
      get_default_def traverse_map_Inr ReflectorProtocol_roundtrip ReflectorSortOrder_roundtrip)

lemma dict_update_new: "k \<notin> fst ` set m \<Longrightarrow> dict_update k v m = m @ [(k, v)]"
  by (induction m) auto

lemma regions_fold:
  "distinct (map region_name rs) \<Longrightarrow> set (map region_name rs) \<inter> fst ` set acc = {} \<Longrightarrow>
   fold (\<lambda>m regions. fold (\<lambda>(k, v). dict_update k v) (MirrorRegion_json m) regions) rs acc =
   acc @ map (\<lambda>m. (region_name m, region_urls m)) rs"
proof (induction rs arbitrary: acc)
  case Nil
  then show ?case by simp
next
  case (Cons r rs)
  from Cons.prems have new: "region_name r \<notin> fst ` set acc"
    by auto
  from Cons.prems have "distinct (map region_name rs)"
    "set (map region_name rs) \<inter> fst ` set (acc @ [(region_name r, region_urls r)]) = {}"
    by auto
  from Cons.IH[OF this] new show ?case
    by (simp add: MirrorRegion_json_def dict_update_new)
qed

lemma regions_roundtrip:
  "distinct (map region_name rs) \<Longrightarrow>
   map (\<lambda>(region, urls). \<lparr>region_name = region, region_urls = urls\<rparr>)
     (fold (\<lambda>m regions. fold (\<lambda>(k, v). dict_update k v) (MirrorRegion_json m) regions) rs []) = rs"
  by (simp add: regions_fold map_idI)

text \<open>
  C1, amended. For a configuration whose regions have pairwise distinct names and
  which has no custom servers, \<^verbatim>\<open>json\<close> followed by \<^verbatim>\<open>parse_args\<close> returns the
  same configuration: regions with their URL lists, optional repositories, custom
  repositories and reflector settings. (\<^verbatim>\<open>Repository(r.value)\<close> is \<^verbatim>\<open>r\<close> for a
  member of an enum, which is the third assumption.) And a document with the key
  \<^verbatim>\<open>custom_mirrors\<close> parses as the document that has the same value under
  \<^verbatim>\<open>custom_repositories\<close>.
\<close>

theorem json_parse_args_roundtrip:
  assumes names: "distinct (map region_name (mirror_regions c))"
    and servers: "custom_servers c = []"
    and enum: "\<forall>r \<in> set (optional_repositories c). repo_of (repo_value r) = Some r"
  shows "MirrorConfiguration_parse_args repo_of (MirrorConfiguration_json repo_value c) [] = Inr c \<and>
     (\<forall>args repos bc.
        MirrorConfiguration_parse_args repo_of
          (args\<lparr>arg_custom_mirrors := Some repos, arg_custom_repositories := None\<rparr>) bc =
        MirrorConfiguration_parse_args repo_of
          (args\<lparr>arg_custom_mirrors := None, arg_custom_repositories := Some repos\<rparr>) bc)"
proof
  from enum have opt:
    "traverse (\<lambda>r. case repo_of r of None \<Rightarrow> Inl ValueError | Some x \<Rightarrow> Inr x)
       (map repo_value (optional_repositories c)) = Inr (optional_repositories c)"
    by (intro traverse_map_Inr) simp
  have "MirrorConfiguration_parse_args repo_of (MirrorConfiguration_json repo_value c) [] =
      Inr \<lparr>mirror_regions = mirror_regions c, custom_servers = custom_servers c,
           optional_repositories = optional_repositories c,
           custom_repositories = custom_repositories c, reflector = reflector c\<rparr>"
    using names servers
    by (simp add: MirrorConfiguration_parse_args_def MirrorConfiguration_json_def Let_def
        get_default_def regions_roundtrip CustomRepository_list_roundtrip opt
        ReflectorConfiguration_roundtrip)
  then show "MirrorConfiguration_parse_args repo_of (MirrorConfiguration_json repo_value c) [] = Inr c"
    by simp
next
  show "\<forall>args repos bc.
        MirrorConfiguration_parse_args repo_of
          (args\<lparr>arg_custom_mirrors := Some repos, arg_custom_repositories := None\<rparr>) bc =
        MirrorConfiguration_parse_args repo_of
          (args\<lparr>arg_custom_mirrors := None, arg_custom_repositories := Some repos\<rparr>) bc"
    by (simp add: MirrorConfiguration_parse_args_def Let_def split: sum.splits)
qed

theorem json_parse_args_roundtrip_witness:
  "MirrorConfiguration_parse_args Some
     (MirrorConfiguration_json id
        \<lparr>mirror_regions =
           [\<lparr>region_name = ''Germany'', region_urls = [''https://a/$repo/os/$arch'']\<rparr>,
            \<lparr>region_name = ''Brazil'', region_urls = []\<rparr>],
         custom_servers = [],
         optional_repositories = [''multilib''],
         custom_repositories =
           [\<lparr>name = ''extra'', repo_url = ''https://x/'', sign_check = Required,
             sign_option = TrustAll\<rparr>],
         reflector =
           \<lparr>enabled = True, countries = [''Brazil'', ''Chile''], protocols = [HTTPS, HTTP],
            age = 6, latest = 10, sort_order = Score, verbose = False\<rparr>\<rparr>) [] =
   Inr \<lparr>mirror_regions =
           [\<lparr>region_name = ''Germany'', region_urls = [''https://a/$repo/os/$arch'']\<rparr>,
            \<lparr>region_name = ''Brazil'', region_urls = []\<rparr>],
         custom_servers = [],
         optional_repositories = [''multilib''],
         custom_repositories =
           [\<lparr>name = ''extra'', repo_url = ''https://x/'', sign_check = Required,
             sign_option = TrustAll\<rparr>],
         reflector =
           \<lparr>enabled = True, countries = [''Brazil'', ''Chile''], protocols = [HTTPS, HTTP],
            age = 6, latest = 10, sort_order = Score, verbose = False\<rparr>\<rparr>"
  using json_parse_args_roundtrip
    [of "\<lparr>mirror_regions =
           [\<lparr>region_name = ''Germany'', region_urls = [''https://a/$repo/os/$arch'']\<rparr>,
            \<lparr>region_name = ''Brazil'', region_urls = []\<rparr>],
         custom_servers = [],
         optional_repositories = [''multilib''],
         custom_repositories =
           [\<lparr>name = ''extra'', repo_url = ''https://x/'', sign_check = Required,
             sign_option = TrustAll\<rparr>],
         reflector =
           \<lparr>enabled = True, countries = [''Brazil'', ''Chile''], protocols = [HTTPS, HTTP],
            age = 6, latest = 10, sort_order = Score, verbose = False\<rparr>\<rparr>" Some id]
  by simp

text \<open>
  The claim as stated fails where two regions have the same name: \<^verbatim>\<open>json\<close> builds a
  dictionary keyed by region name, the second region overwrites the first, and one
  region comes back where there were two.
\<close>

theorem json_parse_args_roundtrip_counterexample:
  "MirrorConfiguration_parse_args Some
     (MirrorConfiguration_json id
        \<lparr>mirror_regions =
           [\<lparr>region_name = ''Germany'', region_urls = [''https://a/$repo/os/$arch'']\<rparr>,
            \<lparr>region_name = ''Germany'', region_urls = [''https://b/$repo/os/$arch'']\<rparr>],
         custom_servers = [],
         optional_repositories = [] :: string list,
         custom_repositories = [],
         reflector = default_reflector\<rparr>) [] =
   Inr \<lparr>mirror_regions =
           [\<lparr>region_name = ''Germany'', region_urls = [''https://b/$repo/os/$arch'']\<rparr>],
         custom_servers = [],
         optional_repositories = [],
         custom_repositories = [],
         reflector = default_reflector\<rparr> \<and>
   map region_name
     [\<lparr>region_name = ''Germany'', region_urls = [''https://b/$repo/os/$arch'']\<rparr>] \<noteq>
   map region_name
     [\<lparr>region_name = ''Germany'', region_urls = [''https://a/$repo/os/$arch'']\<rparr>,
      \<lparr>region_name = ''Germany'', region_urls = [''https://b/$repo/os/$arch'']\<rparr>]"
  by (simp add: parse_defs MirrorConfiguration_json_def MirrorRegion_json_def
      ReflectorConfiguration_json_def)

text \<open>
  With a custom server, \<^verbatim>\<open>parse_args\<close> raises on the result of \<^verbatim>\<open>json\<close>:
  the list holds the objects, not their dictionaries.
\<close>

lemma json_custom_servers_rejected:
  assumes "custom_servers c \<noteq> []"
  shows "MirrorConfiguration_parse_args repo_of (MirrorConfiguration_json repo_value c) bc =
     Inl TypeError"
proof -
  from assms obtain s ss where "custom_servers c = s # ss"
    by (cases "custom_servers c") auto
  then show ?thesis
    by (simp add: MirrorConfiguration_parse_args_def MirrorConfiguration_json_def Let_def
        CustomServer_parse_args_def parse_server_def)
qed

subsection \<open>The remote parse: which entries survive\<close>
















lemma worldwide_idem: "worldwide (worldwide e) = worldwide e"
  by (simp add: worldwide_def)










text \<open>
  Scores that are no whole numbers are left out above: the rounding of
  \<^verbatim>\<open>validate_score\<close> is not applied when an entry is constructed, so the comparison
  with 100 sees the number of the feed. An entry with the score 99.5 survives, and
  rounded its score is 100.
\<close>

lemma validate_score_not_applied:
  "validate_score (Some (199 / 2)) = Some 100 \<and>
   parse_remote_mirror_list (example_feed [example_entry\<lparr>score := Some (199 / 2)\<rparr>]) =
   Inr [(''Germany'',
         [example_entry\<lparr>score := Some (199 / 2), priv_hostname := Some ''mirror.example''\<rparr>])]"
  by code_simp

end
